theory Spec2Isabelle
  imports Main "HOL-Library.Word"
begin

unbundle bit_operations_syntax

section \<open>Data model of libs/audioflinger/AudioFlinger.cpp\<close>

type_synonym u8 = "8 word"
type_synonym u16 = "16 word"
type_synonym u32 = "32 word"

text \<open>
  A C \<open>float\<close> is carried as its IEEE-754 single-precision bit pattern. The functions
  modelled below only store and copy such values; \<open>1.0f\<close> is the pattern \<open>0x3F800000\<close>.
\<close>

type_synonym float = "32 word"

definition float_one :: float where
  "float_one = 0x3F800000"

datatype status_t =
  NO_ERROR | PERMISSION_DENIED | BAD_VALUE | NO_INIT | NO_MEMORY | NOT_ENOUGH_DATA
  | ALREADY_EXISTS | NO_MORE_BUFFERS

datatype track_state = IDLE | TERMINATED | STOPPED | RESUMING | ACTIVE | PAUSING | PAUSED

datatype fill_status = FS_FILLING | FS_FILLED | FS_ACTIVE

datatype thread_type = MIXER | DIRECT | DUPLICATING

text \<open>
  Constants and helpers that AudioFlinger.cpp takes from headers which are not part of the
  source tree at hand (AudioFlinger.h, AudioSystem.h, AudioTrackShared.h). They are
  parameters of the model: every function that reads one of them takes this record.
  \<open>gtSTOPPED st\<close> stands for the comparison \<open>st > STOPPED\<close> of \<open>Track::stop\<close>, which
  depends on the order of the enumerators in the class declaration.
\<close>

record decls =
  SYSTEM_FLAGS_MASK :: u32
  STEPSERVER_FAILED :: u32
  sizeof_cblk :: u32
  PCM_16_BIT :: u32
  PCM_8_BIT :: u32
  isLinearPCM :: "u32 \<Rightarrow> bool"
  NUM_STREAM_TYPES :: u32
  ENFORCED_AUDIBLE :: u32
  kMaxOverFlowBuffers :: nat
  OUTPUT_FLAG_DIRECT :: u32
  CHANNEL_OUT_STEREO :: u32
  gtSTOPPED :: "track_state \<Rightarrow> bool"
  popCount :: "u32 \<Rightarrow> u32"

text \<open>
  Modelled from the spec: the shared control block \<open>audio_track_cblk_t\<close> is declared in
  AudioTrackShared.h, which is not in the source tree. The fields are those of the
  spec's data model that AudioFlinger.cpp reads or writes; the cursors and counts are
  32-bit unsigned as the locals that receive them in AudioFlinger.cpp are
  (\<open>uint32_t s = cblk->server\<close>), the flags are bytes.
\<close>

record audio_track_cblk_t =
  user :: u32
  server :: u32
  userBase :: u32
  serverBase :: u32
  buffers :: u32
  frameCount :: u32
  loopEnd :: u32
  volume :: "u16 \<times> u16"
  sampleRate :: u32
  frameSize :: u32
  channels :: u8
  flowControlFlag :: u8
  out :: u8
  forceReady :: u8

text \<open>
  Modelled from the spec: \<open>audio_track_cblk_t::framesReady\<close> is defined outside the
  source tree. The spec: for playback, frames ready = \<open>user - server\<close>.
\<close>

definition framesReady :: "audio_track_cblk_t \<Rightarrow> u32" where
  "framesReady c = user c - server c"

text \<open>
  \<open>TrackBase\<close>, \<open>Track\<close> and \<open>RecordTrack\<close>. Pointers are 32-bit addresses, \<open>0\<close> the
  null pointer. \<open>mCblkMemory\<close> and \<open>mSharedBuffer\<close> are strong references to shared
  memory: the model keeps whether they are non-null (\<open>mCblkMemory\<close>) and the address
  the memory starts at (\<open>mSharedBuffer\<close>, \<open>None\<close> for a null reference); a memory
  object that is not null is taken to have a non-null address. \<open>mRetryCount\<close> is an
  \<open>int8_t\<close>, kept as its 8 bits and compared as a signed value.
\<close>

record track_base =
  mCblkMemory :: bool
  mCblk :: audio_track_cblk_t
  mBuffer :: u32
  mBufferEnd :: u32
  mFrameCount :: u32
  mState :: track_state
  mFormat :: u32
  mFlags :: u32

record track = track_base +
  mMute :: bool
  mSharedBuffer :: "u32 option"
  mName :: int
  mStreamType :: int
  mVolume :: "float \<times> float"
  mFillingUpStatus :: fill_status
  mRetryCount :: u8
  mResetDone :: bool

record record_track = track_base +
  mOverflow :: bool

record Buffer =
  raw :: u32
  b_frameCount :: u32

subsection \<open>Constructors\<close>

text \<open>
  The constructors run on freshly allocated storage \<open>u\<close>: a member that no constructor
  assigns keeps the value it has in \<open>u\<close>. \<open>cblk0\<close> is the control block as its own
  constructor (outside the source tree) leaves it; \<open>mem\<close> is the address the allocation
  of the control block returned, \<open>0\<close> when it failed. \<open>client\<close> tells whether the
  \<open>client\<close> argument is non-null. When the client heap is exhausted the constructor
  of \<open>TrackBase\<close> returns early and leaves the pointer \<open>mCblk\<close> unassigned; when
  \<open>operator new\<close> gives null, \<open>mCblk\<close> is null. In the model the control block of \<open>u\<close>
  is then left as it is.
\<close>

definition TrackBase_init ::
  "decls \<Rightarrow> audio_track_cblk_t \<Rightarrow> u32 \<Rightarrow> bool \<Rightarrow> u32 \<Rightarrow> u32 \<Rightarrow> u32 \<Rightarrow> u32 \<Rightarrow> u32
     \<Rightarrow> u32 option \<Rightarrow> 'a track_base_scheme \<Rightarrow> 'a track_base_scheme" where
  "TrackBase_init K cblk0 mem client sampleRate' format channelCount frameCount' flags
       sharedBuffer u =
     (let u1 = u\<lparr>mFrameCount := 0, mState := IDLE, mFormat := format,
                  mFlags := flags AND NOT (SYSTEM_FLAGS_MASK K)\<rparr>;
          bufferSize = frameCount' * channelCount * 2;
          c1 = cblk0\<lparr>frameCount := frameCount', sampleRate := sampleRate',
                      channels := ucast channelCount\<rparr>
      in if client then
           (if mem \<noteq> 0 then
              (if sharedBuffer = None then
                 u1\<lparr>mCblkMemory := True, mCblk := c1\<lparr>flowControlFlag := 1\<rparr>,
                    mBuffer := mem + sizeof_cblk K,
                    mBufferEnd := mem + sizeof_cblk K + bufferSize\<rparr>
               else
                 u1\<lparr>mCblkMemory := True, mCblk := c1,
                    mBuffer := the sharedBuffer,
                    mBufferEnd := the sharedBuffer + bufferSize\<rparr>)
            else u1\<lparr>mCblkMemory := False\<rparr>)
         else
           (if mem \<noteq> 0 then
              u1\<lparr>mCblkMemory := False, mCblk := c1\<lparr>flowControlFlag := 1\<rparr>,
                 mBuffer := mem + sizeof_cblk K,
                 mBufferEnd := mem + sizeof_cblk K + bufferSize\<rparr>
            else u1\<lparr>mCblkMemory := False\<rparr>))"

text \<open>
  \<open>Track::Track\<close>. \<open>name\<close> is what \<open>getTrackName_l\<close> of the owning thread returns, or
  \<open>None\<close> when the thread is gone and \<open>mName\<close> stays \<open>-1\<close>. The last statement of the
  constructor writes \<open>mCblk->frameSize\<close> without a test: when the allocation of the
  control block failed, the write goes through the unassigned or null pointer: the
  behaviour is undefined (a fault, for the null pointer) and no track results. The
  result is \<open>None\<close> then.
\<close>

definition Track_init ::
  "decls \<Rightarrow> audio_track_cblk_t \<Rightarrow> u32 \<Rightarrow> int option \<Rightarrow> bool \<Rightarrow> int \<Rightarrow> u32 \<Rightarrow> u32 \<Rightarrow> u32
     \<Rightarrow> u32 \<Rightarrow> u32 option \<Rightarrow> track \<Rightarrow> track option" where
  "Track_init K cblk0 mem name client streamType sampleRate' format channelCount frameCount'
       sharedBuffer u =
     (let t = TrackBase_init K cblk0 mem client sampleRate' format channelCount frameCount' 0
                sharedBuffer u;
          t1 = t\<lparr>mMute := False, mSharedBuffer := sharedBuffer,
                 mName := (case name of None \<Rightarrow> - 1 | Some n \<Rightarrow> n),
                 mVolume := (float_one, float_one), mStreamType := streamType\<rparr>
      in if mem = 0 then None
         else Some (t1\<lparr>mCblk := (mCblk t1)\<lparr>frameSize :=
                     (if isLinearPCM K format then channelCount * 2 else 1)\<rparr>\<rparr>))"

text \<open>
  \<open>RecordTrack::RecordTrack\<close> writes \<open>mCblk->frameSize\<close> in the same way, and has no
  result either when the allocation failed.
\<close>

definition RecordTrack_init ::
  "decls \<Rightarrow> audio_track_cblk_t \<Rightarrow> u32 \<Rightarrow> bool \<Rightarrow> u32 \<Rightarrow> u32 \<Rightarrow> u32 \<Rightarrow> u32 \<Rightarrow> u32
     \<Rightarrow> record_track \<Rightarrow> record_track option" where
  "RecordTrack_init K cblk0 mem client sampleRate' format channelCount frameCount' flags u =
     (let t = TrackBase_init K cblk0 mem client sampleRate' format channelCount frameCount'
                flags None u;
          t1 = t\<lparr>mOverflow := False\<rparr>
      in if mem = 0 then None
         else Some (t1\<lparr>mCblk := (mCblk t1)\<lparr>frameSize :=
                     (if format = PCM_16_BIT K then channelCount * 2
                      else if format = PCM_8_BIT K then channelCount * 1
                      else 1)\<rparr>\<rparr>))"

subsection \<open>Track state predicates (inline members of the class declaration)\<close>

definition isTerminated :: "track \<Rightarrow> bool" where
  "isTerminated t = (mState t = TERMINATED)"

definition isStopped :: "track \<Rightarrow> bool" where
  "isStopped t = (mState t = STOPPED)"

definition isPaused :: "track \<Rightarrow> bool" where
  "isPaused t = (mState t = PAUSED)"

definition isPausing :: "track \<Rightarrow> bool" where
  "isPausing t = (mState t = PAUSING)"

definition setPaused :: "track \<Rightarrow> track" where
  "setPaused t = t\<lparr>mState := PAUSED\<rparr>"

definition isMuted :: "track \<Rightarrow> bool" where
  "isMuted t = mMute t"

subsection \<open>reset, flush, isReady\<close>

definition TrackBase_reset :: "decls \<Rightarrow> 'a track_base_scheme \<Rightarrow> 'a track_base_scheme" where
  "TrackBase_reset K t =
     t\<lparr>mCblk := (mCblk t)\<lparr>user := 0, server := 0, userBase := 0, serverBase := 0\<rparr>,
       mFlags := mFlags t AND NOT (SYSTEM_FLAGS_MASK K)\<rparr>"

definition Track_reset :: "decls \<Rightarrow> track \<Rightarrow> track" where
  "Track_reset K t =
     (if \<not> mResetDone t then
        (let t1 = TrackBase_reset K t
         in t1\<lparr>mCblk := (mCblk t1)\<lparr>flowControlFlag := 1, forceReady := 0\<rparr>,
               mFillingUpStatus := FS_FILLING, mResetDone := True\<rparr>)
      else t)"

text \<open>
  \<open>Track::flush\<close>. \<open>thread_alive\<close> says whether \<open>mThread.promote()\<close> gives a thread. The
  function takes the thread's lock and, around the call of \<open>reset\<close>, the control block's
  lock; the result carries, next to the track, these operations in the order in which
  the function performs them.
\<close>

datatype lock_event = Lock_thread | Unlock_thread | Lock_cblk | Unlock_cblk | Call_reset

definition flush :: "decls \<Rightarrow> bool \<Rightarrow> track \<Rightarrow> track \<times> lock_event list" where
  "flush K thread_alive t =
     (if thread_alive then
        (if mState t \<noteq> STOPPED \<and> mState t \<noteq> PAUSED \<and> mState t \<noteq> PAUSING
         then (t, [Lock_thread, Unlock_thread])
         else (Track_reset K (t\<lparr>mState := STOPPED\<rparr>),
               [Lock_thread, Lock_cblk, Call_reset, Unlock_cblk, Unlock_thread]))
      else (t, []))"

text \<open>\<open>Track::isReady\<close> is \<open>const\<close> but writes two \<open>mutable\<close> members: it returns the track too.\<close>

definition isReady :: "track \<Rightarrow> bool \<times> track" where
  "isReady t =
     (if mFillingUpStatus t \<noteq> FS_FILLING then (True, t)
      else if frameCount (mCblk t) \<le> framesReady (mCblk t) \<or> forceReady (mCblk t) \<noteq> 0 then
        (True, t\<lparr>mFillingUpStatus := FS_FILLED, mCblk := (mCblk t)\<lparr>forceReady := 0\<rparr>\<rparr>)
      else (False, t))"

subsection \<open>The buffer provider of a playback track\<close>

text \<open>
  \<open>audio_track_cblk_t::stepServer\<close> is defined outside the source tree. It is a parameter
  \<open>stepServer\<close> of the functions that call it: \<open>stepServer c n\<close> is \<open>None\<close> when the
  non-blocking attempt to take the control block's mutex fails (the C++ returns
  \<open>false\<close>), and the control block after the step otherwise.
\<close>

type_synonym stepServer_t = "audio_track_cblk_t \<Rightarrow> u32 \<Rightarrow> audio_track_cblk_t option"

definition step :: "decls \<Rightarrow> stepServer_t \<Rightarrow> 'a track_base_scheme \<Rightarrow> bool \<times> 'a track_base_scheme" where
  "step K stepServer t =
     (case stepServer (mCblk t) (mFrameCount t) of
        Some c \<Rightarrow> (True, t\<lparr>mCblk := c\<rparr>)
      | None \<Rightarrow> (False, t\<lparr>mFlags := mFlags t OR STEPSERVER_FAILED K\<rparr>))"

definition releaseBuffer ::
  "decls \<Rightarrow> stepServer_t \<Rightarrow> 'a track_base_scheme \<Rightarrow> Buffer \<Rightarrow> Buffer \<times> 'a track_base_scheme" where
  "releaseBuffer K stepServer t buffer =
     (\<lparr>raw = 0, b_frameCount = 0\<rparr>,
      snd (step K stepServer (t\<lparr>mFrameCount := b_frameCount buffer\<rparr>)))"

definition getBuffer :: "'a track_base_scheme \<Rightarrow> u32 \<Rightarrow> u32 \<Rightarrow> u32" where
  "getBuffer t offset frames =
     (let cblk = mCblk t;
          bufferStart = mBuffer t + (offset - serverBase cblk) * frameSize cblk;
          bufferEnd = bufferStart + frames * frameSize cblk
      in if bufferStart < mBuffer t \<or> bufferStart > bufferEnd \<or> bufferEnd > mBufferEnd t \<or>
            bufferStart AND (frameSize cblk - 1) \<noteq> 0
         then 0 else bufferStart)"

definition getNextBuffer_exit :: "'a \<Rightarrow> status_t \<times> Buffer \<times> 'a" where
  "getNextBuffer_exit t = (NOT_ENOUGH_DATA, \<lparr>raw = 0, b_frameCount = 0\<rparr>, t)"

text \<open>
  \<open>Track::getNextBuffer\<close>, in two parts: \<open>getNextBuffer_fetch\<close> is the body from
  \<open>framesReady = cblk->framesReady()\<close> on, run on the track as the retry of a failed
  \<open>stepServer\<close> leaves it.
\<close>

definition getNextBuffer_fetch :: "track \<Rightarrow> u32 \<Rightarrow> status_t \<times> Buffer \<times> track" where
  "getNextBuffer_fetch t1 framesReq0 =
     (let cblk = mCblk t1;
          framesReady' = framesReady cblk
      in if framesReady' \<noteq> 0 then
           (let s = server cblk;
                bufferEnd = serverBase cblk + frameCount cblk;
                bufferEnd = (if loopEnd cblk < bufferEnd then loopEnd cblk else bufferEnd);
                framesReq = (if framesReq0 > framesReady' then framesReady' else framesReq0);
                framesReq = (if s + framesReq > bufferEnd then bufferEnd - s else framesReq);
                raw' = getBuffer t1 s framesReq
            in if raw' = 0 then getNextBuffer_exit t1
               else (NO_ERROR, \<lparr>raw = raw', b_frameCount = framesReq\<rparr>, t1))
         else getNextBuffer_exit t1)"

definition getNextBuffer ::
  "decls \<Rightarrow> stepServer_t \<Rightarrow> track \<Rightarrow> Buffer \<Rightarrow> status_t \<times> Buffer \<times> track" where
  "getNextBuffer K stepServer t buffer =
     (let framesReq = b_frameCount buffer;
          failed = (mFlags t AND STEPSERVER_FAILED K \<noteq> 0);
          stepped = step K stepServer t
      in if failed \<and> \<not> fst stepped then getNextBuffer_exit (snd stepped)
         else getNextBuffer_fetch
                (if failed
                 then (snd stepped)\<lparr>mFlags :=
                        mFlags (snd stepped) AND NOT (STEPSERVER_FAILED K)\<rparr>
                 else t)
                framesReq)"

text \<open>
  The effective buffer end of a fetch, as the specification of loop mode has it: the
  smaller of \<open>serverBase + frameCount\<close> and \<open>loopEnd\<close>.
\<close>

definition effective_end :: "audio_track_cblk_t \<Rightarrow> u32" where
  "effective_end c = min (serverBase c + frameCount c) (loopEnd c)"

subsection \<open>Playback threads\<close>

definition kMaxTrackRetries :: u8 where
  "kMaxTrackRetries = 50"

definition kMaxTrackStartupRetries :: u8 where
  "kMaxTrackStartupRetries = 50"

record stream_type_t =
  st_volume :: float
  mute :: bool

text \<open>
  Modelled from the spec: the mixer object (AudioMixer.cpp is not in the source tree).
  Per track name it keeps whether the track is enabled, its buffer provider and the
  parameters set for it; \<open>enable\<close>, \<open>disable\<close>, \<open>setBufferProvider\<close> and \<open>setParameter\<close>
  act on the track selected by \<open>setActiveTrack\<close>; \<open>process\<close> pulls from the providers
  of the enabled tracks only.
\<close>

record AudioMixer =
  mActiveTrack :: int
  m_allocated :: "int \<Rightarrow> bool"
  m_enabled :: "int \<Rightarrow> bool"
  m_provider :: "int \<Rightarrow> nat option"
  m_ramp :: "int \<Rightarrow> bool"
  m_volume :: "int \<Rightarrow> u16 \<times> u16"
  m_format :: "int \<Rightarrow> u32"
  m_channelCount :: "int \<Rightarrow> u32"
  m_sampleRate :: "int \<Rightarrow> u32"

definition setActiveTrack :: "int \<Rightarrow> AudioMixer \<Rightarrow> AudioMixer" where
  "setActiveTrack name m = m\<lparr>mActiveTrack := name\<rparr>"

definition enable :: "AudioMixer \<Rightarrow> AudioMixer" where
  "enable m = m\<lparr>m_enabled := (m_enabled m)(mActiveTrack m := True)\<rparr>"

definition disable :: "AudioMixer \<Rightarrow> AudioMixer" where
  "disable m = m\<lparr>m_enabled := (m_enabled m)(mActiveTrack m := False)\<rparr>"

definition setBufferProvider :: "nat \<Rightarrow> AudioMixer \<Rightarrow> AudioMixer" where
  "setBufferProvider r m = m\<lparr>m_provider := (m_provider m)(mActiveTrack m := Some r)\<rparr>"

definition setVolume :: "bool \<Rightarrow> u16 \<Rightarrow> u16 \<Rightarrow> AudioMixer \<Rightarrow> AudioMixer" where
  "setVolume ramp left right m =
     m\<lparr>m_ramp := (m_ramp m)(mActiveTrack m := ramp),
       m_volume := (m_volume m)(mActiveTrack m := (left, right))\<rparr>"

definition setTrackParameters :: "u32 \<Rightarrow> u32 \<Rightarrow> u32 \<Rightarrow> AudioMixer \<Rightarrow> AudioMixer" where
  "setTrackParameters fmt cc sr m =
     m\<lparr>m_format := (m_format m)(mActiveTrack m := fmt),
       m_channelCount := (m_channelCount m)(mActiveTrack m := cc),
       m_sampleRate := (m_sampleRate m)(mActiveTrack m := sr)\<rparr>"

definition deleteTrackName :: "int \<Rightarrow> AudioMixer \<Rightarrow> AudioMixer" where
  "deleteTrackName name m = m\<lparr>m_allocated := (m_allocated m)(name := False)\<rparr>"

text \<open>
  A playback thread. Tracks are objects shared between the thread, the client's handle
  and the mixer: the thread's vectors hold their addresses, and the objects live in a
  store \<open>nat \<rightharpoonup> track\<close> passed alongside. A weak reference whose object is gone is an
  address the store does not map. \<open>mOutput\<close> is a pointer, \<open>0\<close> when null.
\<close>

record playback_thread =
  mType :: thread_type
  mSampleRate :: u32
  mFormat_th :: u32
  mChannelCount :: u32
  mFrameCount_th :: u32
  mOutput :: u32
  mTracks :: "nat list"
  mActiveTracks :: "nat list"
  mMasterVolume :: float
  mMasterMute :: bool
  mStreamTypes :: "int \<Rightarrow> stream_type_t"
  mBytesWritten :: int
  mMinBytesToWrite :: int
  mAudioMixer :: AudioMixer

type_synonym store = "nat \<Rightarrow> track option"

text \<open>\<open>SortedVector::add\<close>, \<open>remove\<close> on a vector of addresses without duplicates.\<close>

definition sv_add :: "nat \<Rightarrow> nat list \<Rightarrow> nat list" where
  "sv_add x xs = (if x \<in> set xs then xs else insort x xs)"

definition sv_remove :: "nat \<Rightarrow> nat list \<Rightarrow> nat list" where
  "sv_remove x xs = removeAll x xs"

definition addTrack_l :: "playback_thread \<Rightarrow> nat \<Rightarrow> track \<Rightarrow> status_t \<times> track \<times> playback_thread" where
  "addTrack_l th r track =
     (let t1 = (if isPaused track then track\<lparr>mState := RESUMING\<rparr>
                else track\<lparr>mState := ACTIVE\<rparr>);
          t2 = t1\<lparr>mRetryCount := kMaxTrackStartupRetries\<rparr>
      in if r \<notin> set (mActiveTracks th) then
           (NO_ERROR, t2\<lparr>mFillingUpStatus := FS_FILLING, mResetDone := False\<rparr>,
            th\<lparr>mActiveTracks := sv_add r (mActiveTracks th)\<rparr>)
         else (ALREADY_EXISTS, t2, th))"

text \<open>
  \<open>Track::start\<close>, \<open>stop\<close>, \<open>pause\<close>: \<open>th\<close> is the thread \<open>mThread.promote()\<close> gives,
  \<open>None\<close> when it is gone; \<open>r\<close> is the address of the track.
\<close>

definition Track_start ::
  "playback_thread option \<Rightarrow> nat \<Rightarrow> track \<Rightarrow> status_t \<times> track \<times> playback_thread option" where
  "Track_start th r t =
     (case th of
        None \<Rightarrow> (NO_ERROR, t, None)
      | Some T \<Rightarrow> (case addTrack_l T r t of (_, t', T') \<Rightarrow> (NO_ERROR, t', Some T')))"

definition Track_stop :: "decls \<Rightarrow> playback_thread option \<Rightarrow> nat \<Rightarrow> track \<Rightarrow> track" where
  "Track_stop K th r t =
     (case th of
        None \<Rightarrow> t
      | Some T \<Rightarrow>
          (if gtSTOPPED K (mState t) then
             (let t1 = t\<lparr>mState := STOPPED\<rparr>
              in if r \<notin> set (mActiveTracks T) then Track_reset K t1 else t1)
           else t))"

definition Track_pause :: "bool \<Rightarrow> track \<Rightarrow> track" where
  "Track_pause thread_alive t =
     (if thread_alive \<and> (mState t = ACTIVE \<or> mState t = RESUMING)
      then t\<lparr>mState := PAUSING\<rparr> else t)"

subsection \<open>MixerThread::prepareTracks_l\<close>

text \<open>
  The gain of a channel is computed in floating point from the master volume, the stream
  type's volume and the control block's volume, clamped to \<open>MAX_GAIN\<close> and converted to
  \<open>int16_t\<close>. That computation is the parameter \<open>gain\<close>.
\<close>

type_synonym gain_t = "float \<Rightarrow> float \<Rightarrow> u16 \<Rightarrow> u16"

text \<open>The branch of the loop body taken for a track that is mixed in this cycle.\<close>

definition prepareTrack_mix ::
  "gain_t \<Rightarrow> playback_thread \<Rightarrow> nat \<Rightarrow> track \<Rightarrow> AudioMixer \<Rightarrow> track \<times> AudioMixer \<times> bool \<times> nat" where
  "prepareTrack_mix gain th r track m =
     (let silent = (isMuted track \<or> mMasterMute th \<or> isPausing track \<or>
                    mute (mStreamTypes th (mStreamType track)));
          t1 = (if silent \<and> isPausing track then setPaused track else track);
          typeVolume = st_volume (mStreamTypes th (mStreamType track));
          left = (if silent then 0
                  else gain (mMasterVolume th) typeVolume (fst (volume (mCblk track))));
          right = (if silent then 0
                   else gain (mMasterVolume th) typeVolume (snd (volume (mCblk track))));
          m1 = enable (setBufferProvider r m);
          ramp = (if mFillingUpStatus t1 = FS_FILLED then mState t1 = RESUMING else True);
          t2 = (if mFillingUpStatus t1 = FS_FILLED then
                  (let t' = t1\<lparr>mFillingUpStatus := FS_ACTIVE\<rparr>
                   in if mState t' = RESUMING then t'\<lparr>mState := ACTIVE\<rparr> else t')
                else t1);
          m2 = setTrackParameters (mFormat t2) (ucast (channels (mCblk t2)))
                 (sampleRate (mCblk t2)) (setVolume ramp left right m1)
      in (t2\<lparr>mRetryCount := kMaxTrackRetries\<rparr>, m2, False, 1))"

text \<open>The branch taken for a track that is not mixed in this cycle.\<close>

definition prepareTrack_idle ::
  "decls \<Rightarrow> playback_thread \<Rightarrow> track \<Rightarrow> AudioMixer \<Rightarrow> track \<times> AudioMixer \<times> bool \<times> nat" where
  "prepareTrack_idle K th track m =
     (let t1 = (if isStopped track then Track_reset K track else track)
      in if isTerminated t1 \<or> isStopped t1 \<or> isPaused t1 then (t1, disable m, True, 0)
         else
           (let t2 = t1\<lparr>mRetryCount := mRetryCount t1 - 1\<rparr>;
                remove = (mRetryCount t2 \<le>s 0)
            in if mSharedBuffer t2 = None \<or> mMinBytesToWrite th \<le> mBytesWritten th
               then (t2, disable m, remove, 0)
               else (t2, m, remove, 1)))"

text \<open>
  The body of the loop over the active tracks, for the track at address \<open>r\<close>: the track
  and the mixer after it, whether the track was put on \<open>tracksToRemove\<close>, and by how much
  \<open>enabledTracks\<close> grew. \<open>isReady\<close> is called only when frames are ready, as \<open>&&\<close> does.
\<close>

definition prepareTrack ::
  "decls \<Rightarrow> gain_t \<Rightarrow> playback_thread \<Rightarrow> nat \<Rightarrow> track \<Rightarrow> AudioMixer
     \<Rightarrow> track \<times> AudioMixer \<times> bool \<times> nat" where
  "prepareTrack K gain th r track m =
     (let m1 = setActiveTrack (mName track) m
      in if framesReady (mCblk track) \<noteq> 0 then
           (let ready = isReady track; t1 = snd ready
            in if (fst ready \<or> isStopped t1) \<and> \<not> isPaused t1
               then prepareTrack_mix gain th r t1 m1
               else prepareTrack_idle K th t1 m1)
         else prepareTrack_idle K th track m1)"

fun prepareTracks_loop ::
  "decls \<Rightarrow> gain_t \<Rightarrow> playback_thread \<Rightarrow> nat list \<Rightarrow> store \<Rightarrow> AudioMixer \<Rightarrow> nat list \<Rightarrow> nat
     \<Rightarrow> store \<times> AudioMixer \<times> nat list \<times> nat" where
  "prepareTracks_loop K gain th [] h m rem n = (h, m, rem, n)"
| "prepareTracks_loop K gain th (r # rs) h m rem n =
     (case h r of
        None \<Rightarrow> prepareTracks_loop K gain th rs h m rem n
      | Some track \<Rightarrow>
          (case prepareTrack K gain th r track m of
             (t', m', remove, inc) \<Rightarrow>
               prepareTracks_loop K gain th rs (h(r \<mapsto> t')) m'
                 (if remove then rem @ [r] else rem) (n + inc)))"

fun removeTracks :: "nat list \<Rightarrow> store \<Rightarrow> playback_thread \<Rightarrow> playback_thread" where
  "removeTracks [] h th = th"
| "removeTracks (r # rs) h th =
     (let th1 = th\<lparr>mActiveTracks := sv_remove r (mActiveTracks th)\<rparr>;
          th2 = (case h r of
                   None \<Rightarrow> th1
                 | Some track \<Rightarrow>
                     if isTerminated track
                     then th1\<lparr>mTracks := sv_remove r (mTracks th1),
                             mAudioMixer := deleteTrackName (mName track) (mAudioMixer th1)\<rparr>
                     else th1)
      in removeTracks rs h th2)"

text \<open>
  \<open>prepareTracks_l\<close>: the number of enabled tracks, the thread, the store and
  \<open>tracksToRemove\<close> afterwards.
\<close>

definition prepareTracks_l ::
  "decls \<Rightarrow> gain_t \<Rightarrow> playback_thread \<Rightarrow> store \<Rightarrow> nat list
     \<Rightarrow> nat \<times> playback_thread \<times> store \<times> nat list" where
  "prepareTracks_l K gain th h tracksToRemove =
     (case prepareTracks_loop K gain th (mActiveTracks th) h (mAudioMixer th) tracksToRemove 0 of
        (h', m', rem', enabledTracks) \<Rightarrow>
          (enabledTracks, removeTracks rem' h' (th\<lparr>mAudioMixer := m'\<rparr>), h', rem'))"

text \<open>
  One pass of the thread loop over its tracks: \<open>threadLoop\<close> calls \<open>prepareTracks_l\<close>
  with \<open>tracksToRemove\<close> empty (it clears the vector at the end of every iteration).
\<close>

definition mixer_cycle ::
  "decls \<Rightarrow> gain_t \<Rightarrow> playback_thread \<times> store \<Rightarrow> playback_thread \<times> store" where
  "mixer_cycle K gain s =
     (case prepareTracks_l K gain (fst s) (snd s) [] of (n, th', h', rem) \<Rightarrow> (th', h'))"

subsection \<open>PlaybackThread::createTrack_l\<close>

text \<open>
  \<open>r\<close> is the address of the new \<open>Track\<close> object and \<open>u\<close> its storage; \<open>cblk0\<close>, \<open>mem\<close> and
  \<open>name\<close> are what the constructor gets from the control block's constructor, the
  allocator and \<open>getTrackName_l\<close>. The result is the track reference returned (\<open>None\<close>
  for null), the status, the thread and the store; the whole result is \<open>None\<close> when the
  constructor of the track does not return. \<open>track->getCblk()\<close> is the pointer \<open>mCblk\<close>,
  that is the address \<open>mem\<close>; since the constructor returns only when that is not null,
  the exit with \<open>NO_MEMORY\<close> is never taken.
\<close>

definition createTrack_l ::
  "decls \<Rightarrow> audio_track_cblk_t \<Rightarrow> u32 \<Rightarrow> int \<Rightarrow> nat \<Rightarrow> track \<Rightarrow> playback_thread \<Rightarrow> store
     \<Rightarrow> bool \<Rightarrow> int \<Rightarrow> u32 \<Rightarrow> u32 \<Rightarrow> u32 \<Rightarrow> u32 \<Rightarrow> u32 option
     \<Rightarrow> (nat option \<times> status_t \<times> playback_thread \<times> store) option" where
  "createTrack_l K cblk0 mem name r u th h client streamType sampleRate' format channelCount
       frameCount' sharedBuffer =
     (if (if mType th = DIRECT
          then sampleRate' \<noteq> mSampleRate th \<or> format \<noteq> mFormat_th th \<or>
               channelCount \<noteq> mChannelCount th
          else sampleRate' > mSampleRate th * 2)
      then Some (None, BAD_VALUE, th, h)
      else if mOutput th = 0 then Some (None, NO_INIT, th, h)
      else
        (case Track_init K cblk0 mem (Some name) client streamType sampleRate' format
                channelCount frameCount' sharedBuffer u of
           None \<Rightarrow> None
         | Some track \<Rightarrow>
             if mem = 0 then Some (Some r, NO_MEMORY, th, h(r \<mapsto> track))
             else Some (Some r, NO_ERROR, th\<lparr>mTracks := sv_add r (mTracks th)\<rparr>,
                        h(r \<mapsto> track))))"

subsection \<open>OutputTrack\<close>

text \<open>
  An \<open>OutputTrack\<close> is a \<open>Track\<close> (\<open>trk\<close>) with an overflow queue. A queued \<open>Buffer\<close> is
  kept as the pointer to its unwritten rest and the count of frames left; sample data is
  not modelled.
\<close>

record output_track =
  trk :: track
  mActive :: bool
  mBufferQueue :: "Buffer list"
  mOutBuffer :: Buffer
  mWaitTimeMs :: u32

text \<open>
  \<open>audio_track_cblk_t::stepUser\<close> and \<open>audio_track_cblk_t::buffer\<close> are defined outside the
  source tree and are parameters of the functions that call them.
\<close>

type_synonym stepUser_t = "audio_track_cblk_t \<Rightarrow> u32 \<Rightarrow> audio_track_cblk_t"
type_synonym buffer_t = "audio_track_cblk_t \<Rightarrow> u32 \<Rightarrow> u32"

text \<open>
  \<open>OutputTrack::OutputTrack\<close>, for a destination thread with the given frame count and
  sample rate. The track has no client and no shared buffer; its stream type is
  \<open>NUM_STREAM_TYPES\<close>. The overflow queue is a vector member and starts empty; \<open>out0\<close>
  is the storage of \<open>mOutBuffer\<close>, of which only the frame count is assigned. There is
  no result when the constructor of \<open>Track\<close> has none.
  (\<open>mWaitTimeMs\<close> divides by the thread's sample rate; the C++ traps when that is 0.)
\<close>

definition OutputTrack_init ::
  "decls \<Rightarrow> audio_track_cblk_t \<Rightarrow> u32 \<Rightarrow> int option \<Rightarrow> u32 \<Rightarrow> u32 \<Rightarrow> u32 \<Rightarrow> u32 \<Rightarrow> u32
     \<Rightarrow> u32 \<Rightarrow> track \<Rightarrow> Buffer \<Rightarrow> output_track option" where
  "OutputTrack_init K cblk0 mem name thread_frameCount thread_sampleRate sampleRate' format
       channelCount frameCount' u out0 =
     (case Track_init K cblk0 mem name False (uint (NUM_STREAM_TYPES K)) sampleRate' format
             channelCount frameCount' None u of
        None \<Rightarrow> None
      | Some t \<Rightarrow>
          (let t1 = t\<lparr>mCblk := (mCblk t)\<lparr>out := 1, buffers := mem + sizeof_cblk K,
                                         volume := (0x1000, 0x1000)\<rparr>\<rparr>
           in Some \<lparr>trk = t1, mActive = False, mBufferQueue = [],
                    mOutBuffer = out0\<lparr>b_frameCount := 0\<rparr>,
                    mWaitTimeMs = (thread_frameCount * 2 * 1000) div thread_sampleRate\<rparr>))"

definition OutputTrack_start ::
  "playback_thread option \<Rightarrow> nat \<Rightarrow> output_track
     \<Rightarrow> status_t \<times> output_track \<times> playback_thread option" where
  "OutputTrack_start th r ot =
     (case Track_start th r (trk ot) of
        (status, t', th') \<Rightarrow>
          if status \<noteq> NO_ERROR then (status, ot\<lparr>trk := t'\<rparr>, th')
          else (status, ot\<lparr>trk := t'\<lparr>mRetryCount := 127\<rparr>, mActive := True\<rparr>, th'))"

definition clearBufferQueue :: "output_track \<Rightarrow> output_track" where
  "clearBufferQueue ot = ot\<lparr>mBufferQueue := []\<rparr>"

definition OutputTrack_stop ::
  "decls \<Rightarrow> playback_thread option \<Rightarrow> nat \<Rightarrow> output_track \<Rightarrow> output_track" where
  "OutputTrack_stop K th r ot =
     (let ot1 = clearBufferQueue (ot\<lparr>trk := Track_stop K th r (trk ot)\<rparr>)
      in ot1\<lparr>mOutBuffer := (mOutBuffer ot1)\<lparr>b_frameCount := 0\<rparr>, mActive := False\<rparr>)"

text \<open>
  \<open>OutputTrack::obtainBuffer\<close>. The wait for free frames blocks on the consumer and on
  real time; its outcome is the parameter \<open>avail\<close>: \<open>None\<close> when it ends with
  \<open>NO_MORE_BUFFERS\<close> (the track is not active, or the timed wait fails), \<open>Some n\<close> when
  it ends with \<open>n\<close> frames available.
\<close>

definition obtainBuffer :: "buffer_t \<Rightarrow> output_track \<Rightarrow> Buffer \<Rightarrow> u32 option \<Rightarrow> status_t \<times> Buffer" where
  "obtainBuffer buffer_at ot buffer avail =
     (case avail of
        None \<Rightarrow> (NO_MORE_BUFFERS, buffer\<lparr>b_frameCount := 0\<rparr>)
      | Some framesAvail \<Rightarrow>
          (let cblk = mCblk (trk ot);
               framesReq = b_frameCount buffer;
               framesReq = (if framesReq > framesAvail then framesAvail else framesReq);
               u = user cblk;
               bufferEnd = userBase cblk + frameCount cblk;
               framesReq = (if u + framesReq > bufferEnd then bufferEnd - u else framesReq)
           in (NO_ERROR, \<lparr>raw = buffer_at cblk u, b_frameCount = framesReq\<rparr>)))"

datatype 'a loop_step = Break 'a | Continue 'a

text \<open>
  One iteration of the \<open>while (waitTimeLeftMs)\<close> loop of \<open>OutputTrack::write\<close>, on
  \<open>waitTimeLeftMs\<close>, \<open>inBuffer\<close> and the track; the result carries \<open>outputBufferFull\<close>
  too. \<open>obs\<close> is what the iteration observes if it calls \<open>obtainBuffer\<close>: the outcome of
  the wait and the milliseconds it took.
\<close>

definition write_body ::
  "stepUser_t \<Rightarrow> buffer_t \<Rightarrow> u32 option \<times> u32 \<Rightarrow> u32 \<Rightarrow> Buffer \<Rightarrow> output_track
     \<Rightarrow> (bool \<times> u32 \<times> Buffer \<times> output_track) loop_step" where
  "write_body stepUser buffer_at obs waitTimeLeftMs inBuffer ot =
     (let pInBuffer = (case mBufferQueue ot of [] \<Rightarrow> inBuffer | q # qs \<Rightarrow> q)
      in if b_frameCount pInBuffer = 0 then Break (False, waitTimeLeftMs, inBuffer, ot)
         else
           (let obtained =
                  (if b_frameCount (mOutBuffer ot) = 0
                   then obtainBuffer buffer_at ot
                          ((mOutBuffer ot)\<lparr>b_frameCount := b_frameCount pInBuffer\<rparr>) (fst obs)
                   else (NO_ERROR, mOutBuffer ot));
                ot1 = ot\<lparr>mOutBuffer := snd obtained\<rparr>
            in if fst obtained = NO_MORE_BUFFERS then Break (True, waitTimeLeftMs, inBuffer, ot1)
               else
                 (let w1 = (if b_frameCount (mOutBuffer ot) = 0
                            then (if waitTimeLeftMs \<ge> snd obs then waitTimeLeftMs - snd obs
                                  else 0)
                            else waitTimeLeftMs);
                      outFrames = (if b_frameCount pInBuffer > b_frameCount (mOutBuffer ot1)
                                   then b_frameCount (mOutBuffer ot1)
                                   else b_frameCount pInBuffer);
                      channels' = ucast (channels (mCblk (trk ot1)));
                      t' = (trk ot1)\<lparr>mCblk := stepUser (mCblk (trk ot1)) outFrames\<rparr>;
                      pIn' = pInBuffer\<lparr>b_frameCount := b_frameCount pInBuffer - outFrames,
                                        raw := raw pInBuffer + outFrames * channels' * 2\<rparr>;
                      out' = (mOutBuffer ot1)\<lparr>
                               b_frameCount := b_frameCount (mOutBuffer ot1) - outFrames,
                               raw := raw (mOutBuffer ot1) + outFrames * channels' * 2\<rparr>;
                      ot2 = ot1\<lparr>trk := t', mOutBuffer := out'\<rparr>
                  in case mBufferQueue ot of
                       [] \<Rightarrow>
                         if b_frameCount pIn' = 0 then Break (False, w1, pIn', ot2)
                         else Continue (False, w1, pIn', ot2)
                     | q # qs \<Rightarrow>
                         if b_frameCount pIn' = 0
                         then Continue (False, w1, inBuffer, ot2\<lparr>mBufferQueue := qs\<rparr>)
                         else Continue (False, w1, inBuffer,
                                ot2\<lparr>mBufferQueue := pIn' # qs\<rparr>))))"

text \<open>
  The loop, on one observation per iteration. It may run for ever in the C++ (a wait that
  takes no time and grants no frame); the result is \<open>None\<close> when the observations run out
  before the loop ends.
\<close>

fun write_loop ::
  "stepUser_t \<Rightarrow> buffer_t \<Rightarrow> (u32 option \<times> u32) list \<Rightarrow> u32 \<Rightarrow> Buffer \<Rightarrow> output_track
     \<Rightarrow> (bool \<times> Buffer \<times> output_track) option" where
  "write_loop stepUser buffer_at [] w inBuffer ot =
     (if w = 0 then Some (False, inBuffer, ot) else None)"
| "write_loop stepUser buffer_at (obs # rest) w inBuffer ot =
     (if w = 0 then Some (False, inBuffer, ot)
      else
        (case write_body stepUser buffer_at obs w inBuffer ot of
           Break (full, w', inBuffer', ot') \<Rightarrow> Some (full, inBuffer', ot')
         | Continue (full, w', inBuffer', ot') \<Rightarrow>
             write_loop stepUser buffer_at rest w' inBuffer' ot'))"

text \<open>
  \<open>OutputTrack::write\<close>. \<open>th\<close> is the destination thread (\<open>None\<close> when it is gone), \<open>r\<close>
  the address of the track, \<open>new\<close> the address \<open>operator new\<close> returns for an overflow
  buffer. The result is \<open>outputBufferFull\<close>, the track and the thread.
\<close>

definition OutputTrack_write ::
  "decls \<Rightarrow> stepUser_t \<Rightarrow> buffer_t \<Rightarrow> (u32 option \<times> u32) list \<Rightarrow> u32
     \<Rightarrow> playback_thread option \<Rightarrow> nat \<Rightarrow> output_track \<Rightarrow> u32 \<Rightarrow> u32
     \<Rightarrow> (bool \<times> output_track \<times> playback_thread option) option" where
  "OutputTrack_write K stepUser buffer_at observations new th r ot data frames =
     (let inBuffer = \<lparr>raw = data, b_frameCount = frames\<rparr>;
          waitTimeLeftMs = mWaitTimeMs ot;
          started = (if \<not> mActive ot then snd (OutputTrack_start th r ot) else (ot, th));
          ot0 = fst started;
          th1 = snd started;
          ot1 = (if \<not> mActive ot \<and> th1 \<noteq> None \<and> frameCount (mCblk (trk ot0)) > frames
                 then (if length (mBufferQueue ot0) < kMaxOverFlowBuffers K
                       then ot0\<lparr>mBufferQueue := mBufferQueue ot0 @
                              [\<lparr>raw = new,
                                b_frameCount = frameCount (mCblk (trk ot0)) - frames\<rparr>]\<rparr>
                       else ot0)
                 else ot0)
      in case write_loop stepUser buffer_at observations waitTimeLeftMs inBuffer ot1 of
           None \<Rightarrow> None
         | Some (outputBufferFull, inBuffer', ot2) \<Rightarrow>
             (let ot3 = (if b_frameCount inBuffer' \<noteq> 0
                         then (if length (mBufferQueue ot2) < kMaxOverFlowBuffers K
                               then ot2\<lparr>mBufferQueue := mBufferQueue ot2 @
                                      [\<lparr>raw = new,
                                        b_frameCount = b_frameCount inBuffer'\<rparr>]\<rparr>
                               else ot2)
                         else ot2);
                  cblk = mCblk (trk ot3)
              in if frames = 0 \<and> mBufferQueue ot3 = [] then
                   (if user cblk < frameCount cblk
                    then Some (outputBufferFull,
                           ot3\<lparr>mBufferQueue := mBufferQueue ot3 @
                                 [\<lparr>raw = new,
                                   b_frameCount = frameCount cblk - user cblk\<rparr>]\<rparr>, th1)
                    else Some (outputBufferFull, OutputTrack_stop K th1 r ot3, th1))
                 else Some (outputBufferFull, ot3, th1)))"

subsection \<open>The server\<close>

text \<open>
  Modelled from the spec: the hardware abstraction is an external collaborator (its code
  is not in the source tree). \<open>setMasterVolume\<close> answers with a status; the model keeps,
  as the state of the hardware object, the values it has been called with.
\<close>

record AudioHardwareInterface =
  hw_setMasterVolume :: "float \<Rightarrow> status_t"
  hw_masterVolumeCalls :: "float list"

definition hw_call_setMasterVolume ::
  "float \<Rightarrow> AudioHardwareInterface \<Rightarrow> status_t \<times> AudioHardwareInterface" where
  "hw_call_setMasterVolume v hw =
     (hw_setMasterVolume hw v, hw\<lparr>hw_masterVolumeCalls := hw_masterVolumeCalls hw @ [v]\<rparr>)"

record record_thread =
  mInput :: u32
  mReqSampleRate :: u32
  mReqChannels :: u32

text \<open>
  \<open>AudioFlinger\<close>. The registries are keyed vectors from handle to thread, kept sorted by
  key. \<open>mNextThreadId\<close> is a C \<open>int\<close>; the model counts in the integers (the increment
  overflows after \<open>2^31 - 1\<close> endpoints, which C++ leaves undefined).
\<close>

record audio_flinger =
  mAudioHardware :: AudioHardwareInterface
  af_mMasterVolume :: float
  af_mMasterMute :: bool
  af_mStreamTypes :: "int \<Rightarrow> stream_type_t"
  mPlaybackThreads :: "(int \<times> playback_thread) list"
  mRecordThreads :: "(int \<times> record_thread) list"
  mNextThreadId :: int

fun kv_add :: "int \<Rightarrow> 'v \<Rightarrow> (int \<times> 'v) list \<Rightarrow> (int \<times> 'v) list" where
  "kv_add k v [] = [(k, v)]"
| "kv_add k v ((k', v') # xs) =
     (if k < k' then (k, v) # (k', v') # xs
      else if k = k' then (k, v) # xs
      else (k', v') # kv_add k v xs)"

definition PlaybackThread_setMasterVolume :: "float \<Rightarrow> playback_thread \<Rightarrow> playback_thread" where
  "PlaybackThread_setMasterVolume value' th = th\<lparr>mMasterVolume := value'\<rparr>"

definition PlaybackThread_setStreamMute :: "int \<Rightarrow> bool \<Rightarrow> playback_thread \<Rightarrow> playback_thread" where
  "PlaybackThread_setStreamMute stream muted th =
     th\<lparr>mStreamTypes := (mStreamTypes th)(stream := (mStreamTypes th stream)\<lparr>mute := muted\<rparr>)\<rparr>"

text \<open>
  \<open>settingsAllowed\<close> is the outcome of the permission check of the same name, which asks
  the IPC runtime about the calling process.
\<close>

definition setMasterVolume :: "bool \<Rightarrow> float \<Rightarrow> audio_flinger \<Rightarrow> status_t \<times> audio_flinger" where
  "setMasterVolume settingsAllowed value' af =
     (if \<not> settingsAllowed then (PERMISSION_DENIED, af)
      else
        (let answer = hw_call_setMasterVolume value' (mAudioHardware af);
             v = (if fst answer = NO_ERROR then float_one else value')
         in (NO_ERROR,
             af\<lparr>mAudioHardware := snd answer, af_mMasterVolume := v,
                mPlaybackThreads :=
                  map (\<lambda>(k, th). (k, PlaybackThread_setMasterVolume v th))
                    (mPlaybackThreads af)\<rparr>)))"

definition masterVolume :: "audio_flinger \<Rightarrow> float" where
  "masterVolume af = af_mMasterVolume af"

text \<open>
  \<open>stream\<close> is a C \<open>int\<close>, kept as its 32 bits: \<open>stream < 0\<close> is the signed comparison,
  \<open>uint32_t(stream)\<close> the same bits read unsigned; the array index is its signed value.
\<close>

definition setStreamMute ::
  "decls \<Rightarrow> bool \<Rightarrow> u32 \<Rightarrow> bool \<Rightarrow> audio_flinger \<Rightarrow> status_t \<times> audio_flinger" where
  "setStreamMute K settingsAllowed stream muted af =
     (if \<not> settingsAllowed then (PERMISSION_DENIED, af)
      else if stream <s 0 \<or> stream \<ge> NUM_STREAM_TYPES K \<or> stream = ENFORCED_AUDIBLE K
      then (BAD_VALUE, af)
      else
        (NO_ERROR,
         af\<lparr>af_mStreamTypes := (af_mStreamTypes af)
               (sint stream := (af_mStreamTypes af (sint stream))\<lparr>mute := muted\<rparr>),
            mPlaybackThreads :=
              map (\<lambda>(k, th). (k, PlaybackThread_setStreamMute (sint stream) muted th))
                (mPlaybackThreads af)\<rparr>))"

subsection \<open>Opening endpoints\<close>

text \<open>
  What the hardware's \<open>openOutputStream\<close> and \<open>openInputStream\<close> give back: the stream
  pointer (\<open>0\<close> on failure), the format, channels and sampling rate written through the
  pointer arguments, the status, and the latency the stream reports.
\<close>

record stream_result =
  sr_stream :: u32
  sr_format :: u32
  sr_channels :: u32
  sr_samplingRate :: u32
  sr_status :: status_t
  sr_latency :: u32

type_synonym openStream_t = "u32 \<Rightarrow> u32 \<Rightarrow> u32 \<Rightarrow> u32 \<Rightarrow> stream_result"

definition deref0 :: "u32 option \<Rightarrow> u32" where
  "deref0 p = (case p of None \<Rightarrow> 0 | Some v \<Rightarrow> v)"

definition assign :: "u32 option \<Rightarrow> u32 \<Rightarrow> u32 option" where
  "assign p v = (case p of None \<Rightarrow> None | Some _ \<Rightarrow> Some v)"

text \<open>
  \<open>openOutput\<close>. A pointer argument is \<open>None\<close> when null and \<open>Some v\<close> when it points at
  \<open>v\<close>; the result is the handle returned, the server, and the four in-out arguments.
  \<open>new_thread ty output\<close> is the thread object constructed for the output stream.
\<close>

definition openOutput ::
  "decls \<Rightarrow> openStream_t \<Rightarrow> (thread_type \<Rightarrow> u32 \<Rightarrow> playback_thread) \<Rightarrow> audio_flinger
     \<Rightarrow> u32 option \<Rightarrow> u32 option \<Rightarrow> u32 option \<Rightarrow> u32 option \<Rightarrow> u32 option \<Rightarrow> u32
     \<Rightarrow> int \<times> audio_flinger \<times> u32 option \<times> u32 option \<times> u32 option \<times> u32 option" where
  "openOutput K openOutputStream new_thread af pDevices pSamplingRate pFormat pChannels
       pLatencyMs flags =
     (let samplingRate = deref0 pSamplingRate;
          format = deref0 pFormat;
          channels' = deref0 pChannels
      in if pDevices = None \<or> pDevices = Some 0
         then (0, af, pSamplingRate, pFormat, pChannels, pLatencyMs)
         else
           (let res = openOutputStream (the pDevices) format channels' samplingRate
            in if sr_stream res \<noteq> 0 then
                 (let thread =
                        (if flags AND OUTPUT_FLAG_DIRECT K \<noteq> 0 \<or>
                            sr_format res \<noteq> PCM_16_BIT K \<or>
                            sr_channels res \<noteq> CHANNEL_OUT_STEREO K
                         then new_thread DIRECT (sr_stream res)
                         else new_thread MIXER (sr_stream res));
                      af1 = af\<lparr>mNextThreadId := mNextThreadId af + 1\<rparr>;
                      af2 = af1\<lparr>mPlaybackThreads :=
                                  kv_add (mNextThreadId af1) thread (mPlaybackThreads af1)\<rparr>
                  in (mNextThreadId af2, af2,
                      assign pSamplingRate (sr_samplingRate res),
                      assign pFormat (sr_format res),
                      assign pChannels (sr_channels res),
                      assign pLatencyMs (sr_latency res)))
               else (mNextThreadId af, af, pSamplingRate, pFormat, pChannels, pLatencyMs)))"

definition checkPlaybackThread_l :: "audio_flinger \<Rightarrow> int \<Rightarrow> playback_thread option" where
  "checkPlaybackThread_l af output = map_of (mPlaybackThreads af) output"

definition checkMixerThread_l :: "audio_flinger \<Rightarrow> int \<Rightarrow> playback_thread option" where
  "checkMixerThread_l af output =
     (case checkPlaybackThread_l af output of
        None \<Rightarrow> None
      | Some thread \<Rightarrow> if mType thread = DIRECT then None else Some thread)"

text \<open>
  \<open>openDuplicateOutput\<close>. \<open>new_duplicating t1 t2\<close> is the \<open>DuplicatingThread\<close> constructed
  on the first mixer thread with an output track to the second added.
\<close>

definition openDuplicateOutput ::
  "(playback_thread \<Rightarrow> playback_thread \<Rightarrow> playback_thread) \<Rightarrow> audio_flinger \<Rightarrow> int \<Rightarrow> int
     \<Rightarrow> int \<times> audio_flinger" where
  "openDuplicateOutput new_duplicating af output1 output2 =
     (case (checkMixerThread_l af output1, checkMixerThread_l af output2) of
        (Some thread1, Some thread2) \<Rightarrow>
          (let af1 = af\<lparr>mNextThreadId := mNextThreadId af + 1\<rparr>;
               af2 = af1\<lparr>mPlaybackThreads :=
                           kv_add (mNextThreadId af1) (new_duplicating thread1 thread2)
                             (mPlaybackThreads af1)\<rparr>
           in (mNextThreadId af2, af2))
      | _ \<Rightarrow> (0, af))"

text \<open>
  \<open>openInput\<close>. \<open>openInputStream\<close> takes the acoustics too; when the first attempt fails
  with \<open>BAD_VALUE\<close> and the server can convert, the stream is opened again with the
  parameters the hardware proposed.
\<close>

definition openInput ::
  "decls \<Rightarrow> (u32 \<Rightarrow> openStream_t) \<Rightarrow> audio_flinger
     \<Rightarrow> u32 option \<Rightarrow> u32 option \<Rightarrow> u32 option \<Rightarrow> u32 option \<Rightarrow> u32
     \<Rightarrow> int \<times> audio_flinger \<times> u32 option \<times> u32 option \<times> u32 option" where
  "openInput K openInputStream af pDevices pSamplingRate pFormat pChannels acoustics =
     (let reqSamplingRate = deref0 pSamplingRate;
          reqFormat = deref0 pFormat;
          reqChannels = deref0 pChannels
      in if pDevices = None \<or> pDevices = Some 0
         then (0, af, pSamplingRate, pFormat, pChannels)
         else
           (let res1 = openInputStream acoustics (the pDevices) reqFormat reqChannels
                         reqSamplingRate;
                res = (if sr_stream res1 = 0 \<and> sr_status res1 = BAD_VALUE \<and>
                          reqFormat = sr_format res1 \<and> sr_format res1 = PCM_16_BIT K \<and>
                          sr_samplingRate res1 \<le> 2 * reqSamplingRate \<and>
                          popCount K (sr_channels res1) < 3 \<and> popCount K reqChannels < 3
                       then openInputStream acoustics (the pDevices) (sr_format res1)
                              (sr_channels res1) (sr_samplingRate res1)
                       else res1)
            in if sr_stream res \<noteq> 0 then
                 (let thread = \<lparr>mInput = sr_stream res, mReqSampleRate = reqSamplingRate,
                                mReqChannels = reqChannels\<rparr>;
                      af1 = af\<lparr>mNextThreadId := mNextThreadId af + 1\<rparr>;
                      af2 = af1\<lparr>mRecordThreads :=
                                  kv_add (mNextThreadId af1) thread (mRecordThreads af1)\<rparr>
                  in (mNextThreadId af2, af2,
                      assign pSamplingRate reqSamplingRate,
                      assign pFormat (sr_format res),
                      assign pChannels reqChannels))
               else (mNextThreadId af, af, pSamplingRate, pFormat, pChannels)))"

subsection \<open>Concrete values\<close>

text \<open>
  One choice of the header constants, a control block as its constructor leaves it, and
  blank storage for a track and a record track. Statements that are evaluated at an input
  are evaluated on these.
\<close>

definition sample_decls :: decls where
  "sample_decls =
     \<lparr>SYSTEM_FLAGS_MASK = 0xFFFF, STEPSERVER_FAILED = 1, sizeof_cblk = 64,
      PCM_16_BIT = 1, PCM_8_BIT = 2, isLinearPCM = (\<lambda>f. f = 1 \<or> f = 2),
      NUM_STREAM_TYPES = 10, ENFORCED_AUDIBLE = 7, kMaxOverFlowBuffers = 8,
      OUTPUT_FLAG_DIRECT = 1, CHANNEL_OUT_STEREO = 12,
      gtSTOPPED = (\<lambda>st. st \<in> {RESUMING, ACTIVE, PAUSING, PAUSED}),
      popCount = (\<lambda>w. of_nat (length (filter (bit w) [0..<32])))\<rparr>"

definition sample_cblk :: audio_track_cblk_t where
  "sample_cblk =
     \<lparr>user = 0, server = 0, userBase = 0, serverBase = 0, buffers = 0, frameCount = 0,
      loopEnd = 0xFFFFFFFF, volume = (0, 0), sampleRate = 0, frameSize = 0, channels = 0,
      flowControlFlag = 1, out = 0, forceReady = 0\<rparr>"

definition sample_track :: track where
  "sample_track =
     \<lparr>mCblkMemory = False, mCblk = sample_cblk, mBuffer = 0, mBufferEnd = 0, mFrameCount = 0,
      mState = IDLE, mFormat = 0, mFlags = 0, mMute = False, mSharedBuffer = None,
      mName = 0, mStreamType = 0, mVolume = (0, 0), mFillingUpStatus = FS_ACTIVE,
      mRetryCount = 0, mResetDone = False\<rparr>"

definition sample_record_track :: record_track where
  "sample_record_track =
     \<lparr>mCblkMemory = False, mCblk = sample_cblk, mBuffer = 0, mBufferEnd = 0, mFrameCount = 0,
      mState = IDLE, mFormat = 0, mFlags = 0, mOverflow = False\<rparr>"

definition sample_playing :: track where
  "sample_playing =
     sample_track\<lparr>mCblkMemory := True,
       mCblk := sample_cblk\<lparr>user := 100, frameCount := 256, frameSize := 4, channels := 2,
                           sampleRate := 44100\<rparr>,
       mBuffer := 0x1040, mBufferEnd := 0x1440, mState := ACTIVE\<rparr>"

text \<open>
  A streaming track that has played \<open>2^30 + 50\<close> frames of which the client has written
  10 more, and on which the client has then set a loop ending at frame 60: the loop end
  lies behind the consumer cursor.
\<close>

definition looped_track :: track where
  "looped_track =
     sample_playing\<lparr>mCblk := (mCblk sample_playing)
       \<lparr>user := 0x4000003C, server := 0x40000032, userBase := 0x40000000,
        serverBase := 0x40000000, loopEnd := 60\<rparr>\<rparr>"

definition sample_mixer :: AudioMixer where
  "sample_mixer =
     \<lparr>mActiveTrack = 0, m_allocated = (\<lambda>_. False), m_enabled = (\<lambda>_. False),
      m_provider = (\<lambda>_. None), m_ramp = (\<lambda>_. False), m_volume = (\<lambda>_. (0, 0)),
      m_format = (\<lambda>_. 0), m_channelCount = (\<lambda>_. 0), m_sampleRate = (\<lambda>_. 0)\<rparr>"

definition sample_thread :: playback_thread where
  "sample_thread =
     \<lparr>mType = MIXER, mSampleRate = 44100, mFormat_th = 1, mChannelCount = 2,
      mFrameCount_th = 1024, mOutput = 0x2000, mTracks = [7], mActiveTracks = [],
      mMasterVolume = float_one, mMasterMute = False,
      mStreamTypes = (\<lambda>_. \<lparr>st_volume = float_one, mute = False\<rparr>),
      mBytesWritten = 0, mMinBytesToWrite = 0, mAudioMixer = sample_mixer\<rparr>"

definition sample_gain :: gain_t where
  "sample_gain master type v = v"

text \<open>
  A scenario: the idle track at address 7, with an empty ring of 256 frames, is started on
  \<open>sample_thread\<close>; its client writes 10 frames; the track is stopped. \<open>started_thread\<close>
  and \<open>stopped_track\<close> are the thread and the track after that.
\<close>

definition sample_idle :: track where
  "sample_idle = sample_playing\<lparr>mCblk := (mCblk sample_playing)\<lparr>user := 0\<rparr>, mState := IDLE\<rparr>"

definition started_thread :: playback_thread where
  "started_thread = snd (snd (addTrack_l sample_thread 7 sample_idle))"



definition filled_track :: track where
  "filled_track =
     (let t1 = fst (snd (addTrack_l sample_thread 7 sample_idle))
      in t1\<lparr>mCblk := (mCblk t1)\<lparr>user := 256\<rparr>\<rparr>)"

definition started_track :: track where
  "started_track = fst (snd (addTrack_l sample_thread 7 sample_idle))"

text \<open>
  An output track that has not been started, with a ring of 3072 frames, and simple
  stand-ins for \<open>stepUser\<close> and \<open>buffer\<close>.
\<close>

definition sample_output_track :: output_track where
  "sample_output_track =
     \<lparr>trk = sample_idle\<lparr>mCblk := (mCblk sample_idle)\<lparr>frameCount := 3072\<rparr>\<rparr>,
      mActive = False, mBufferQueue = [], mOutBuffer = \<lparr>raw = 0, b_frameCount = 0\<rparr>,
      mWaitTimeMs = 46\<rparr>"

text \<open>That output track after \<open>start()\<close> on \<open>sample_thread\<close>, at address 7.\<close>

definition started_output_track :: output_track where
  "started_output_track = fst (snd (OutputTrack_start (Some sample_thread) 7 sample_output_track))"

definition sample_stepUser :: stepUser_t where
  "sample_stepUser c n = c\<lparr>user := user c + n\<rparr>"

definition sample_buffer :: buffer_t where
  "sample_buffer c u = buffers c + (u - userBase c) * frameSize c"

text \<open>
  A server with no endpoints, hardware that opens a stereo 16-bit output and hardware that
  fails to open any stream, and the server after one successful \<open>openOutput\<close>.
\<close>

definition sample_hw :: AudioHardwareInterface where
  "sample_hw = \<lparr>hw_setMasterVolume = (\<lambda>v. NO_ERROR), hw_masterVolumeCalls = []\<rparr>"

definition sample_server :: audio_flinger where
  "sample_server =
     \<lparr>mAudioHardware = sample_hw, af_mMasterVolume = float_one, af_mMasterMute = False,
      af_mStreamTypes = (\<lambda>_. \<lparr>st_volume = float_one, mute = False\<rparr>),
      mPlaybackThreads = [], mRecordThreads = [], mNextThreadId = 0\<rparr>"

definition hw_open_ok :: openStream_t where
  "hw_open_ok devices format channels' samplingRate =
     \<lparr>sr_stream = 0x2000, sr_format = 1, sr_channels = 12, sr_samplingRate = 44100,
      sr_status = NO_ERROR, sr_latency = 100\<rparr>"

definition hw_open_fail :: openStream_t where
  "hw_open_fail devices format channels' samplingRate =
     \<lparr>sr_stream = 0, sr_format = format, sr_channels = channels',
      sr_samplingRate = samplingRate, sr_status = NO_INIT, sr_latency = 0\<rparr>"

definition sample_new_thread :: "thread_type \<Rightarrow> u32 \<Rightarrow> playback_thread" where
  "sample_new_thread ty output = sample_thread\<lparr>mType := ty, mOutput := output, mTracks := []\<rparr>"

definition server_one_output :: audio_flinger where
  "server_one_output =
     fst (snd (openOutput sample_decls hw_open_ok sample_new_thread sample_server
       (Some 2) None None None None 0))"

section \<open>Properties\<close>

lemma Track_init_frameSize:
  "Track_init K cblk0 mem name client st sr fmt cc fc sb u = Some t \<Longrightarrow>
     frameSize (mCblk t) = (if isLinearPCM K fmt then cc * 2 else 1)"
  by (auto simp: Track_init_def Let_def split: if_splits)

lemma RecordTrack_init_frameSize:
  "RecordTrack_init K cblk0 mem client sr fmt cc fc fl u = Some t \<Longrightarrow>
     frameSize (mCblk t) =
       (if fmt = PCM_16_BIT K then cc * 2 else if fmt = PCM_8_BIT K then cc * 1 else 1)"
  by (auto simp: RecordTrack_init_def Let_def split: if_splits)

lemma Track_init_None:
  "(Track_init K cblk0 mem name client st sr fmt cc fc sb u = None) = (mem = 0)"
  by (simp add: Track_init_def Let_def)

lemma RecordTrack_init_None:
  "(RecordTrack_init K cblk0 mem client sr fmt cc fc fl u = None) = (mem = 0)"
  by (simp add: RecordTrack_init_def Let_def)

subsection \<open>Frame size of 8-bit PCM tracks\<close>

text \<open>
  C7, as stated, at a record track: a stereo record track created with 8-bit PCM gets a
  frame size of 2 bytes (one byte per channel), not the 4 bytes of 16-bit samples.
\<close>

theorem C7_record_track_counterexample:
  "map_option (\<lambda>t. frameSize (mCblk t))
     (RecordTrack_init sample_decls sample_cblk 0x1000 True 8000
        (PCM_8_BIT sample_decls) 2 256 0 sample_record_track) = Some 2 \<and>
   map_option (\<lambda>t. frameSize (mCblk t))
     (RecordTrack_init sample_decls sample_cblk 0x1000 True 8000
        (PCM_8_BIT sample_decls) 2 256 0 sample_record_track) \<noteq> Some (2 * 2)"
  by (simp add: RecordTrack_init_def Let_def sample_decls_def)

text \<open>
  C7, amended: a playback track created with 8-bit linear PCM has
  \<open>frameSize = channelCount * 2\<close>, as if the samples were 16-bit. A record track created
  with 8-bit PCM has \<open>frameSize = channelCount * 1\<close>; only a 16-bit record track has
  \<open>channelCount * 2\<close>. (\<open>PCM_8_BIT\<close> and \<open>PCM_16_BIT\<close> are distinct enumerators, and
  \<open>isLinearPCM\<close> holds for 8-bit PCM.) A track is created exactly when the allocation
  of its control block succeeds.
\<close>

theorem C7_frameSize_8bit:
  "(isLinearPCM K (PCM_8_BIT K) \<longrightarrow>
      (case Track_init K cblk0 mem name client st sr (PCM_8_BIT K) cc fc sb u of
         None \<Rightarrow> mem = 0
       | Some t \<Rightarrow> mem \<noteq> 0 \<and> frameSize (mCblk t) = cc * 2)) \<and>
   (PCM_8_BIT K \<noteq> PCM_16_BIT K \<longrightarrow>
      (case RecordTrack_init K cblk0 mem client sr (PCM_8_BIT K) cc fc fl v of
         None \<Rightarrow> mem = 0
       | Some t \<Rightarrow> mem \<noteq> 0 \<and> frameSize (mCblk t) = cc * 1)) \<and>
   (case RecordTrack_init K cblk0 mem client sr (PCM_16_BIT K) cc fc fl v of
      None \<Rightarrow> mem = 0
    | Some t \<Rightarrow> mem \<noteq> 0 \<and> frameSize (mCblk t) = cc * 2)"
  by (auto simp: Track_init_def RecordTrack_init_def Let_def split: option.splits if_splits)

theorem C7_frameSize_8bit_witness:
  "isLinearPCM sample_decls (PCM_8_BIT sample_decls) \<and>
   PCM_8_BIT sample_decls \<noteq> PCM_16_BIT sample_decls \<and>
   map_option (\<lambda>t. frameSize (mCblk t))
     (Track_init sample_decls sample_cblk 0x1000 (Some 0) True 3 8000
        (PCM_8_BIT sample_decls) 2 256 None sample_track) = Some 4 \<and>
   map_option (\<lambda>t. frameSize (mCblk t))
     (RecordTrack_init sample_decls sample_cblk 0x1000 True 8000
        (PCM_8_BIT sample_decls) 2 256 0 sample_record_track) = Some 2"
  using C7_frameSize_8bit [where K = sample_decls and ?cblk0.0 = sample_cblk
      and mem = "0x1000" and name = "Some 0" and client = True and st = 3 and sr = 8000
      and cc = 2 and fc = 256 and sb = None and u = sample_track and fl = 0
      and v = sample_record_track]
  by (auto simp: sample_decls_def split: option.splits)

subsection \<open>flush\<close>

text \<open>
  C2, as stated, at a paused track that has already been reset since it was last added
  to the active list (\<open>mResetDone\<close>) and into which the client has written 5 frames since:
  \<open>flush\<close> moves it to STOPPED and leaves the cursors alone, so \<open>user = 5\<close> and
  \<open>userBase = 0\<close> afterwards.
\<close>

theorem C2_flush_counterexample:
  "mState (fst (flush sample_decls True
      (sample_track\<lparr>mCblk := sample_cblk\<lparr>user := 5\<rparr>, mState := PAUSED,
                    mResetDone := True\<rparr>))) = STOPPED \<and>
   user (mCblk (fst (flush sample_decls True
      (sample_track\<lparr>mCblk := sample_cblk\<lparr>user := 5\<rparr>, mState := PAUSED,
                    mResetDone := True\<rparr>)))) \<noteq>
   userBase (mCblk (fst (flush sample_decls True
      (sample_track\<lparr>mCblk := sample_cblk\<lparr>user := 5\<rparr>, mState := PAUSED,
                    mResetDone := True\<rparr>))))"
  by (simp add: flush_def Track_reset_def sample_track_def sample_cblk_def)

text \<open>
  C2, amended: for a track in state STOPPED, PAUSED or PAUSING whose thread is alive,
  \<open>flush\<close> sets the state to STOPPED and calls \<open>reset\<close> under the SCB lock (between
  taking and releasing it); if the track has not been reset since it was last added to
  the active list (\<open>mResetDone\<close> is false) this resets the cursors, so that \<open>user\<close>,
  \<open>userBase\<close>, \<open>server\<close> and \<open>serverBase\<close> are all zero, sets the flow-control flag,
  clears \<open>forceReady\<close> and restores FILLING; if \<open>mResetDone\<close> is already set, the control
  block and the fill status are left as they are. In any other state, or when the thread
  is gone, \<open>flush\<close> leaves the track unchanged and does not touch the SCB lock.
\<close>

theorem C2_flush:
  "(mState t \<in> {STOPPED, PAUSED, PAUSING} \<and> \<not> mResetDone t \<longrightarrow>
      mState (fst (flush K True t)) = STOPPED \<and>
      user (mCblk (fst (flush K True t))) = 0 \<and>
      userBase (mCblk (fst (flush K True t))) = 0 \<and>
      server (mCblk (fst (flush K True t))) = 0 \<and>
      serverBase (mCblk (fst (flush K True t))) = 0 \<and>
      flowControlFlag (mCblk (fst (flush K True t))) = 1 \<and>
      forceReady (mCblk (fst (flush K True t))) = 0 \<and>
      mFillingUpStatus (fst (flush K True t)) = FS_FILLING \<and>
      mResetDone (fst (flush K True t))) \<and>
   (mState t \<in> {STOPPED, PAUSED, PAUSING} \<and> mResetDone t \<longrightarrow>
      fst (flush K True t) = t\<lparr>mState := STOPPED\<rparr>) \<and>
   (mState t \<in> {STOPPED, PAUSED, PAUSING} \<longrightarrow>
      snd (flush K True t)
        = [Lock_thread, Lock_cblk, Call_reset, Unlock_cblk, Unlock_thread]) \<and>
   (mState t \<notin> {STOPPED, PAUSED, PAUSING} \<longrightarrow>
      flush K True t = (t, [Lock_thread, Unlock_thread])) \<and>
   flush K False t = (t, [])"
  by (auto simp: flush_def Track_reset_def TrackBase_reset_def Let_def)

theorem C2_flush_witness:
  "mState (sample_track\<lparr>mCblk := sample_cblk\<lparr>user := 5, server := 3\<rparr>, mState := PAUSING\<rparr>)
     \<in> {STOPPED, PAUSED, PAUSING} \<and>
   \<not> mResetDone (sample_track\<lparr>mCblk := sample_cblk\<lparr>user := 5, server := 3\<rparr>,
                    mState := PAUSING\<rparr>) \<and>
   mState (fst (flush sample_decls True
      (sample_track\<lparr>mCblk := sample_cblk\<lparr>user := 5, server := 3\<rparr>, mState := PAUSING\<rparr>)))
     = STOPPED \<and>
   user (mCblk (fst (flush sample_decls True
      (sample_track\<lparr>mCblk := sample_cblk\<lparr>user := 5, server := 3\<rparr>, mState := PAUSING\<rparr>))))
     = 0 \<and>
   server (mCblk (fst (flush sample_decls True
      (sample_track\<lparr>mCblk := sample_cblk\<lparr>user := 5, server := 3\<rparr>, mState := PAUSING\<rparr>))))
     = 0 \<and>
   mState (sample_track\<lparr>mState := ACTIVE\<rparr>) \<notin> {STOPPED, PAUSED, PAUSING} \<and>
   fst (flush sample_decls True (sample_track\<lparr>mState := ACTIVE\<rparr>))
     = sample_track\<lparr>mState := ACTIVE\<rparr>"
  using
    C2_flush [where t = "sample_track\<lparr>mCblk := sample_cblk\<lparr>user := 5, server := 3\<rparr>,
      mState := PAUSING\<rparr>" and K = sample_decls]
    C2_flush [where t = "sample_track\<lparr>mState := ACTIVE\<rparr>" and K = sample_decls]
  by (simp add: sample_track_def)

subsection \<open>getNextBuffer\<close>

lemma fetch_bounds:
  fixes s u n e :: u32
  assumes "s \<le> e" "s \<le> u"
  shows "(if e < s + (if u - s < n then u - s else n) then e - s
     else if u - s < n then u - s else n) \<le> n \<and>
    (if e < s + (if u - s < n then u - s else n) then e - s
     else if u - s < n then u - s else n) \<le> u - s \<and>
    unat s + unat (if e < s + (if u - s < n then u - s else n) then e - s
      else if u - s < n then u - s else n) \<le> unat e"
  using assms
  by unat_arith

lemma effective_end_alt:
  "(if loopEnd c < serverBase c + frameCount c then loopEnd c
    else serverBase c + frameCount c) = effective_end c"
  by (auto simp: effective_end_def min_def)

lemma getNextBuffer_fetch_result:
  "getNextBuffer_fetch t1 n = (st, b', t') \<Longrightarrow>
     t' = t1 \<and>
     ((st = NOT_ENOUGH_DATA \<and> raw b' = 0 \<and> b_frameCount b' = 0) \<or>
      (st = NO_ERROR \<and> raw b' \<noteq> 0 \<and> framesReady (mCblk t1) \<noteq> 0 \<and>
       b_frameCount b' =
        (if effective_end (mCblk t1) < server (mCblk t1) +
              (if framesReady (mCblk t1) < n then framesReady (mCblk t1) else n)
         then effective_end (mCblk t1) - server (mCblk t1)
         else if framesReady (mCblk t1) < n then framesReady (mCblk t1) else n)))"
  unfolding getNextBuffer_fetch_def Let_def effective_end_alt getNextBuffer_exit_def
  by (cases "framesReady (mCblk t1) = 0") (auto split: if_split_asm)

lemma getNextBuffer_fetch_bounds:
  assumes r: "getNextBuffer_fetch t1 n = (st, b', t')"
  shows "(st = NO_ERROR \<and> raw b' \<noteq> 0 \<and> framesReady (mCblk t') \<noteq> 0 \<and>
      (server (mCblk t') \<le> effective_end (mCblk t') \<and> server (mCblk t') \<le> user (mCblk t') \<longrightarrow>
         b_frameCount b' \<le> n \<and>
         b_frameCount b' \<le> framesReady (mCblk t') \<and>
         unat (server (mCblk t')) + unat (b_frameCount b') \<le> unat (effective_end (mCblk t')))) \<or>
    (st = NOT_ENOUGH_DATA \<and> raw b' = 0 \<and> b_frameCount b' = 0)"
proof -
  from getNextBuffer_fetch_result [OF r] have t': "t' = t1" by simp
  from getNextBuffer_fetch_result [OF r] consider
      (fail) "st = NOT_ENOUGH_DATA" "raw b' = 0" "b_frameCount b' = 0"
    | (ok) "st = NO_ERROR" "raw b' \<noteq> 0" "framesReady (mCblk t1) \<noteq> 0"
       "b_frameCount b' =
        (if effective_end (mCblk t1) < server (mCblk t1) +
              (if framesReady (mCblk t1) < n then framesReady (mCblk t1) else n)
         then effective_end (mCblk t1) - server (mCblk t1)
         else if framesReady (mCblk t1) < n then framesReady (mCblk t1) else n)"
    by blast
  then show ?thesis
  proof cases
    case fail
    then show ?thesis by simp
  next
    case ok
    show ?thesis
      using ok(1-3) fetch_bounds [of "server (mCblk t1)" "effective_end (mCblk t1)"
          "user (mCblk t1)" n]
      unfolding t' ok(4) framesReady_def
      by simp
  qed
qed

lemma step_None:
  "stepServer (mCblk t) (mFrameCount t) = None \<Longrightarrow> \<not> fst (step K stepServer t)"
  by (simp add: step_def)

text \<open>
  What \<open>getNextBuffer\<close> guarantees. With requested count \<open>n = b_frameCount b\<close> it either
  succeeds with a non-null pointer, or fails with \<open>NOT_ENOUGH_DATA\<close>, a null pointer and
  frame count zero; it fails whenever no frames are ready and whenever a pending
  \<open>stepServer\<close> failure cannot be recovered. On success, if at the fetch the consumer
  cursor has passed neither the producer cursor nor the effective buffer end, the frame
  count returned is at most \<open>n\<close>, at most the frames ready \<open>user - server\<close>, and
  \<open>server\<close> plus the count does not exceed the effective buffer end.
\<close>

lemma getNextBuffer_contract:
  assumes r: "getNextBuffer K stepServer t b = (st, b', t')"
  shows "((st = NO_ERROR \<and> raw b' \<noteq> 0 \<and>
           (server (mCblk t') \<le> effective_end (mCblk t') \<and>
            server (mCblk t') \<le> user (mCblk t') \<longrightarrow>
              b_frameCount b' \<le> b_frameCount b \<and>
              b_frameCount b' \<le> framesReady (mCblk t') \<and>
              unat (server (mCblk t')) + unat (b_frameCount b')
                \<le> unat (effective_end (mCblk t')))) \<or>
          (st = NOT_ENOUGH_DATA \<and> raw b' = 0 \<and> b_frameCount b' = 0)) \<and>
         (framesReady (mCblk t') = 0 \<longrightarrow> st = NOT_ENOUGH_DATA) \<and>
         (mFlags t AND STEPSERVER_FAILED K \<noteq> 0 \<and>
          stepServer (mCblk t) (mFrameCount t) = None \<longrightarrow> st = NOT_ENOUGH_DATA)"
proof (cases "mFlags t AND STEPSERVER_FAILED K \<noteq> 0 \<and> \<not> fst (step K stepServer t)")
  case True
  with r show ?thesis
    by (auto simp: getNextBuffer_def Let_def getNextBuffer_exit_def)
next
  case False
  define t1 where "t1 =
    (if mFlags t AND STEPSERVER_FAILED K \<noteq> 0
     then (snd (step K stepServer t))\<lparr>mFlags :=
            mFlags (snd (step K stepServer t)) AND NOT (STEPSERVER_FAILED K)\<rparr>
     else t)"
  from r False have f: "getNextBuffer_fetch t1 (b_frameCount b) = (st, b', t')"
    by (simp add: getNextBuffer_def Let_def t1_def)
  from False have "\<not> (mFlags t AND STEPSERVER_FAILED K \<noteq> 0 \<and>
      stepServer (mCblk t) (mFrameCount t) = None)"
    using step_None [of stepServer t K] by blast
  with getNextBuffer_fetch_bounds [OF f] show ?thesis
    by auto
qed

lemma getNextBuffer_contract_example:
  "getNextBuffer sample_decls (\<lambda>c n. None) sample_playing \<lparr>raw = 0, b_frameCount = 64\<rparr>
     = (NO_ERROR, \<lparr>raw = 0x1040, b_frameCount = 64\<rparr>, sample_playing) \<and>
   server (mCblk sample_playing) \<le> effective_end (mCblk sample_playing) \<and>
   server (mCblk sample_playing) \<le> user (mCblk sample_playing) \<and>
   (64 :: u32) \<le> framesReady (mCblk sample_playing) \<and>
   unat (server (mCblk sample_playing)) + unat (64 :: u32)
     \<le> unat (effective_end (mCblk sample_playing))"
proof -
  have e: "getNextBuffer sample_decls (\<lambda>c n. None) sample_playing \<lparr>raw = 0, b_frameCount = 64\<rparr>
     = (NO_ERROR, \<lparr>raw = 0x1040, b_frameCount = 64\<rparr>, sample_playing)"
    by (simp add: getNextBuffer_def getNextBuffer_fetch_def getBuffer_def Let_def
        sample_playing_def sample_track_def sample_cblk_def sample_decls_def framesReady_def)
  have h: "server (mCblk sample_playing) \<le> effective_end (mCblk sample_playing) \<and>
      server (mCblk sample_playing) \<le> user (mCblk sample_playing)"
    by (simp add: sample_playing_def sample_cblk_def effective_end_def)
  from getNextBuffer_contract [OF e] h e show ?thesis
    by simp
qed

text \<open>
  C4, evaluated where the code departs from it. \<open>looped_track\<close> satisfies the cursor
  invariants of the data model (\<open>server - serverBase = 50\<close> and \<open>user - userBase = 60\<close>
  are within \<open>frameCount = 256\<close>, 10 frames are ready), but its loop end, 60, is behind
  \<open>server\<close>. A request for 1 frame passes \<open>s + framesReq > bufferEnd\<close>, so
  \<open>framesReq = bufferEnd - s\<close> wraps around to \<open>0xC000000A\<close>; in \<open>getBuffer\<close> the byte
  size \<open>frames * frameSize\<close> wraps to 40, the range check passes, and the call returns
  \<open>NO_ERROR\<close> with a non-null pointer and a frame count of 3221225482: more than the 1
  frame requested, more than the 10 frames ready, and past the effective buffer end.
\<close>

theorem C4_count_exceeds_request:
  "getNextBuffer sample_decls (\<lambda>c n. None) looped_track \<lparr>raw = 0, b_frameCount = 1\<rparr>
     = (NO_ERROR, \<lparr>raw = 0x1108, b_frameCount = 0xC000000A\<rparr>, looped_track) \<and>
   framesReady (mCblk looped_track) = 10 \<and>
   effective_end (mCblk looped_track) = 60 \<and>
   server (mCblk looped_track) - serverBase (mCblk looped_track) = 50 \<and>
   user (mCblk looped_track) - userBase (mCblk looped_track) = 60 \<and>
   frameCount (mCblk looped_track) = 256 \<and>
   unat (0xC000000A :: u32) = 3221225482"
  by (simp add: getNextBuffer_def getNextBuffer_fetch_def getBuffer_def Let_def
      looped_track_def sample_playing_def sample_track_def sample_cblk_def sample_decls_def
      framesReady_def effective_end_def)

theorem C4_count_exceeds_request_witness:
  "b_frameCount (fst (snd (getNextBuffer sample_decls (\<lambda>c n. None) looped_track
       \<lparr>raw = 0, b_frameCount = 1\<rparr>))) = 0xC000000A \<and>
   fst (getNextBuffer sample_decls (\<lambda>c n. None) looped_track
       \<lparr>raw = 0, b_frameCount = 1\<rparr>) = NO_ERROR"
  using C4_count_exceeds_request
  by simp

subsection \<open>The fill-up gate\<close>


lemma prepareTrack_mixed:
  assumes "framesReady (mCblk t) \<noteq> 0" "fst (isReady t) \<or> isStopped t" "\<not> isPaused t"
  shows "prepareTrack K g th r t m
           = prepareTrack_mix g th r (snd (isReady t)) (setActiveTrack (mName t) m)"
    and "mRetryCount (fst (prepareTrack K g th r t m)) = kMaxTrackRetries"
    and "\<not> fst (snd (snd (prepareTrack K g th r t m)))"
proof -
  have s: "mState (snd (isReady t)) = mState t"
    by (simp add: isReady_def)
  show a: "prepareTrack K g th r t m
           = prepareTrack_mix g th r (snd (isReady t)) (setActiveTrack (mName t) m)"
    using assms by (simp add: prepareTrack_def Let_def isStopped_def isPaused_def s)
  show "mRetryCount (fst (prepareTrack K g th r t m)) = kMaxTrackRetries"
    by (simp add: a prepareTrack_mix_def Let_def)
  show "\<not> fst (snd (snd (prepareTrack K g th r t m)))"
    by (simp add: a prepareTrack_mix_def Let_def)
qed






subsection \<open>createTrack_l\<close>

lemma rate_twice:
  fixes sr msr :: u32
  assumes a: "2 * unat msr < unat sr"
  shows "msr * 2 < sr"
proof -
  have b: "unat sr < 2 ^ 32"
    using unsigned_less [of sr, where 'a = nat] by simp
  have "unat (msr * 2) = (unat msr * 2) mod 2 ^ 32"
    by (simp add: unat_word_ariths)
  also have "\<dots> = unat msr * 2"
    using a b by simp
  finally show ?thesis
    using a by (simp add: word_less_nat_alt)
qed

text \<open>
  C5: on a direct-output thread \<open>createTrack_l\<close> fails with \<open>BAD_VALUE\<close> whenever the
  requested sample rate, format or channel count differs from the thread's; on any other
  (mixer) thread it fails with \<open>BAD_VALUE\<close> whenever the requested sample rate exceeds
  twice the thread's sample rate. In both cases the track returned is null and the thread
  (its track list included) and the store of track objects are unchanged.
\<close>

theorem C5_createTrack_l:
  "(mType th = DIRECT \<and>
    (sr \<noteq> mSampleRate th \<or> fmt \<noteq> mFormat_th th \<or> cc \<noteq> mChannelCount th) \<longrightarrow>
      createTrack_l K cblk0 mem name r u th h client st sr fmt cc fc sb
        = Some (None, BAD_VALUE, th, h)) \<and>
   (mType th \<noteq> DIRECT \<and> 2 * unat (mSampleRate th) < unat sr \<longrightarrow>
      createTrack_l K cblk0 mem name r u th h client st sr fmt cc fc sb
        = Some (None, BAD_VALUE, th, h))"
  using rate_twice [of "mSampleRate th" sr]
  by (simp add: createTrack_l_def)

theorem C5_createTrack_l_witness:
  "mType (sample_thread\<lparr>mType := DIRECT\<rparr>) = DIRECT \<and>
   (8000 :: u32) \<noteq> mSampleRate (sample_thread\<lparr>mType := DIRECT\<rparr>) \<and>
   createTrack_l sample_decls sample_cblk 0x1000 0 9 sample_track
       (sample_thread\<lparr>mType := DIRECT\<rparr>) Map.empty True 3 8000 1 2 256 None
     = Some (None, BAD_VALUE, sample_thread\<lparr>mType := DIRECT\<rparr>, Map.empty) \<and>
   mType sample_thread \<noteq> DIRECT \<and>
   2 * unat (mSampleRate sample_thread) < unat (96000 :: u32) \<and>
   createTrack_l sample_decls sample_cblk 0x1000 0 9 sample_track sample_thread Map.empty
       True 3 96000 1 2 256 None
     = Some (None, BAD_VALUE, sample_thread, Map.empty)"
  using
    C5_createTrack_l [where th = "sample_thread\<lparr>mType := DIRECT\<rparr>" and sr = 8000
      and K = sample_decls and ?cblk0.0 = sample_cblk and mem = "0x1000" and name = 0
      and r = 9 and u = sample_track and h = Map.empty and client = True and st = 3
      and fmt = 1 and cc = 2 and fc = 256 and sb = None]
    C5_createTrack_l [where th = sample_thread and sr = 96000
      and K = sample_decls and ?cblk0.0 = sample_cblk and mem = "0x1000" and name = 0
      and r = 9 and u = sample_track and h = Map.empty and client = True and st = 3
      and fmt = 1 and cc = 2 and fc = 256 and sb = None]
  by (simp add: sample_thread_def)

subsection \<open>Retry budget and eviction\<close>

lemma prepareTrack_empty:
  assumes "framesReady (mCblk t) = 0" "mState t \<notin> {TERMINATED, STOPPED, PAUSED}"
  shows "fst (prepareTrack K g th r t m) = t\<lparr>mRetryCount := mRetryCount t - 1\<rparr>"
    and "fst (snd (snd (prepareTrack K g th r t m))) = (mRetryCount t - 1 \<le>s 0)"
  using assms
  by (simp_all add: prepareTrack_def prepareTrack_idle_def Let_def isStopped_def
      isTerminated_def isPaused_def)

lemma loop_other:
  "r \<notin> set rs \<Longrightarrow> prepareTracks_loop K g th rs h m rem n = (h', m', rem', n') \<Longrightarrow>
     h' r = h r \<and> (r \<in> set rem' \<longleftrightarrow> r \<in> set rem)"
proof (induction rs arbitrary: h m rem n)
  case Nil
  then show ?case by simp
next
  case (Cons a rs)
  show ?case
  proof (cases "h a")
    case None
    with Cons show ?thesis by simp
  next
    case (Some t)
    obtain t1 m1 rm inc where p: "prepareTrack K g th a t m = (t1, m1, rm, inc)"
      by (cases "prepareTrack K g th a t m") auto
    from Cons.prems Some p have
      "prepareTracks_loop K g th rs (h(a \<mapsto> t1)) m1 (if rm then rem @ [a] else rem) (n + inc)
         = (h', m', rem', n')" by simp
    from Cons.IH [OF _ this] Cons.prems(1) show ?thesis by auto
  qed
qed

lemma loop_track:
  "distinct rs \<Longrightarrow> r \<in> set rs \<Longrightarrow> h r = Some t \<Longrightarrow> framesReady (mCblk t) = 0 \<Longrightarrow>
   mState t \<notin> {TERMINATED, STOPPED, PAUSED} \<Longrightarrow>
   prepareTracks_loop K g th rs h m rem n = (h', m', rem', n') \<Longrightarrow>
     h' r = Some (t\<lparr>mRetryCount := mRetryCount t - 1\<rparr>) \<and>
     (r \<in> set rem' \<longleftrightarrow> r \<in> set rem \<or> mRetryCount t - 1 \<le>s 0)"
proof (induction rs arbitrary: h m rem n)
  case Nil
  then show ?case by simp
next
  case (Cons a rs)
  show ?case
  proof (cases "a = r")
    case True
    obtain t1 m1 rm inc where p: "prepareTrack K g th r t m = (t1, m1, rm, inc)"
      by (cases "prepareTrack K g th r t m") auto
    from prepareTrack_empty [OF Cons.prems(4,5), of K g th r m] p
    have t1: "t1 = t\<lparr>mRetryCount := mRetryCount t - 1\<rparr>" and rm: "rm = (mRetryCount t - 1 \<le>s 0)"
      by simp_all
    from Cons.prems True p have
      l: "prepareTracks_loop K g th rs (h(r \<mapsto> t1)) m1 (if rm then rem @ [r] else rem) (n + inc)
         = (h', m', rem', n')" by simp
    from Cons.prems(1) True have "r \<notin> set rs" by simp
    from loop_other [OF this l] t1 rm show ?thesis by auto
  next
    case False
    with Cons.prems have d: "distinct rs" and rin: "r \<in> set rs" by auto
    show ?thesis
    proof (cases "h a")
      case None
      with Cons.prems have "prepareTracks_loop K g th rs h m rem n = (h', m', rem', n')" by simp
      from Cons.IH [OF d rin Cons.prems(3,4,5) this] show ?thesis .
    next
      case (Some ta)
      obtain t1 m1 rm inc where p: "prepareTrack K g th a ta m = (t1, m1, rm, inc)"
        by (cases "prepareTrack K g th a ta m") auto
      from Cons.prems Some p have
        l: "prepareTracks_loop K g th rs (h(a \<mapsto> t1)) m1 (if rm then rem @ [a] else rem) (n + inc)
           = (h', m', rem', n')" by simp
      have hr: "(h(a \<mapsto> t1)) r = Some t" using False Cons.prems(3) by simp
      from Cons.IH [OF d rin hr Cons.prems(4,5) l] False show ?thesis by auto
    qed
  qed
qed

lemma removeTracks_active:
  "set (mActiveTracks (removeTracks rem h th)) = set (mActiveTracks th) - set rem \<and>
   (distinct (mActiveTracks th) \<longrightarrow> distinct (mActiveTracks (removeTracks rem h th)))"
proof (induction rem arbitrary: th)
  case Nil
  then show ?case by simp
next
  case (Cons a rem)
  show ?case
    by (auto simp: Cons.IH Let_def sv_remove_def distinct_removeAll split: option.splits)
qed

lemma removeTracks_mixer_enabled:
  "m_enabled (mAudioMixer (removeTracks rem h th)) = m_enabled (mAudioMixer th)"
  by (induction rem arbitrary: th)
     (auto simp: Let_def deleteTrackName_def split: option.splits)

lemma retry_sle_zero:
  "m \<le> 127 \<Longrightarrow> ((of_nat m :: u8) \<le>s 0) = (m = 0)"
proof -
  assume a: "m \<le> 127"
  have "sint (of_nat m :: u8) = int m"
    using a by (simp add: signed_of_nat signed_take_bit_int_eq_self)
  then show ?thesis by (simp add: word_sle_eq)
qed

lemma retry_dec: "1 \<le> m \<Longrightarrow> (of_nat m :: u8) - 1 = of_nat (m - 1)"
  by (simp add: of_nat_diff)

lemma cycle_empty:
  assumes d: "distinct (mActiveTracks th)" and rin: "r \<in> set (mActiveTracks th)"
    and hr: "h r = Some t" and e: "framesReady (mCblk t) = 0"
    and st: "mState t \<notin> {TERMINATED, STOPPED, PAUSED}"
    and c: "mixer_cycle K g (th, h) = (th', h')"
  shows "h' r = Some (t\<lparr>mRetryCount := mRetryCount t - 1\<rparr>) \<and>
         distinct (mActiveTracks th') \<and>
         (r \<in> set (mActiveTracks th') \<longleftrightarrow> \<not> (mRetryCount t - 1 \<le>s 0))"
proof -
  obtain h1 m1 rem1 n1 where
    l: "prepareTracks_loop K g th (mActiveTracks th) h (mAudioMixer th) [] 0 = (h1, m1, rem1, n1)"
    by (cases "prepareTracks_loop K g th (mActiveTracks th) h (mAudioMixer th) [] 0") auto
  from c l have th': "th' = removeTracks rem1 h1 (th\<lparr>mAudioMixer := m1\<rparr>)" and h': "h' = h1"
    by (auto simp: mixer_cycle_def prepareTracks_l_def)
  from loop_track [OF d rin hr e st l]
  have a: "h1 r = Some (t\<lparr>mRetryCount := mRetryCount t - 1\<rparr>)"
    and b: "r \<in> set rem1 \<longleftrightarrow> mRetryCount t - 1 \<le>s 0" by simp_all
  from removeTracks_active [of rem1 h1 "th\<lparr>mAudioMixer := m1\<rparr>"] d
  have s: "set (mActiveTracks th') = set (mActiveTracks th) - set rem1"
    and d': "distinct (mActiveTracks th')" by (simp_all add: th')
  from a b s d' rin h' show ?thesis by simp
qed

lemma cycles_keep:
  assumes d: "distinct (mActiveTracks th)" and rin: "r \<in> set (mActiveTracks th)"
    and hr: "h r = Some t" and e: "framesReady (mCblk t) = 0"
    and st: "mState t \<notin> {TERMINATED, STOPPED, PAUSED}"
    and k: "mRetryCount t = of_nat k" "k \<le> 127"
  shows "n < k \<Longrightarrow>
     distinct (mActiveTracks (fst ((mixer_cycle K g ^^ n) (th, h)))) \<and>
     r \<in> set (mActiveTracks (fst ((mixer_cycle K g ^^ n) (th, h)))) \<and>
     snd ((mixer_cycle K g ^^ n) (th, h)) r = Some (t\<lparr>mRetryCount := of_nat (k - n)\<rparr>)"
proof (induction n)
  case 0
  from d rin hr k show ?case by simp
next
  case (Suc n)
  then have n: "n < k" by simp
  obtain thn hn where s: "(mixer_cycle K g ^^ n) (th, h) = (thn, hn)"
    by (cases "(mixer_cycle K g ^^ n) (th, h)") auto
  obtain th' h' where c: "mixer_cycle K g (thn, hn) = (th', h')"
    by (cases "mixer_cycle K g (thn, hn)") auto
  from Suc.IH [OF n] s have dn: "distinct (mActiveTracks thn)"
    and rn: "r \<in> set (mActiveTracks thn)"
    and hn: "hn r = Some (t\<lparr>mRetryCount := of_nat (k - n)\<rparr>)" by simp_all
  have dec: "(of_nat (k - n) :: u8) - 1 = of_nat (k - Suc n)"
    using Suc.prems by (simp add: retry_dec)
  have "k - Suc n \<le> 127" and "k - Suc n \<noteq> 0"
    using Suc.prems k(2) by simp_all
  with retry_sle_zero [of "k - Suc n"]
  have pos: "\<not> ((of_nat (k - Suc n) :: u8) \<le>s 0)"
    by blast
  from cycle_empty [OF dn rn hn _ _ c] e st dec pos
  have "h' r = Some (t\<lparr>mRetryCount := of_nat (k - Suc n)\<rparr>) \<and>
         distinct (mActiveTracks th') \<and> r \<in> set (mActiveTracks th')"
    by simp
  with s c show ?case by simp
qed

lemma cycles_evict:
  assumes d: "distinct (mActiveTracks th)" and rin: "r \<in> set (mActiveTracks th)"
    and hr: "h r = Some t" and e: "framesReady (mCblk t) = 0"
    and st: "mState t \<notin> {TERMINATED, STOPPED, PAUSED}"
    and k: "mRetryCount t = of_nat k" "k \<le> 127" "1 \<le> k"
  shows "r \<notin> set (mActiveTracks (fst ((mixer_cycle K g ^^ k) (th, h))))"
proof -
  obtain n where kn: "k = Suc n" using k(3) by (cases k) auto
  obtain thn hn where s: "(mixer_cycle K g ^^ n) (th, h) = (thn, hn)"
    by (cases "(mixer_cycle K g ^^ n) (th, h)") auto
  obtain th' h' where c: "mixer_cycle K g (thn, hn) = (th', h')"
    by (cases "mixer_cycle K g (thn, hn)") auto
  from cycles_keep [where n = n and K = K and g = g and th = th and h = h and r = r and t = t
      and k = k, OF d rin hr e st k(1,2)] kn s
  have dn: "distinct (mActiveTracks thn)"
    and rn: "r \<in> set (mActiveTracks thn)"
    and hn: "hn r = Some (t\<lparr>mRetryCount := 1\<rparr>)" by simp_all
  from cycle_empty [OF dn rn hn _ _ c] e st
  have "r \<notin> set (mActiveTracks th')" by simp
  with s c kn show ?thesis by simp
qed

lemma budgets: "kMaxTrackRetries = of_nat 50" "kMaxTrackStartupRetries = of_nat 50"
  by (simp_all add: kMaxTrackRetries_def kMaxTrackStartupRetries_def)

lemma loop_track_any:
  "distinct rs \<Longrightarrow> r \<in> set rs \<Longrightarrow> h r = Some t \<Longrightarrow>
   prepareTracks_loop K g th rs h m rem n = (h', m', rem', n') \<Longrightarrow>
     \<exists>m0. h' r = Some (fst (prepareTrack K g th r t m0)) \<and>
          (r \<in> set rem' \<longleftrightarrow> r \<in> set rem \<or> fst (snd (snd (prepareTrack K g th r t m0))))"
proof (induction rs arbitrary: h m rem n)
  case Nil
  then show ?case by simp
next
  case (Cons a rs)
  show ?case
  proof (cases "a = r")
    case True
    obtain t1 m1 rm inc where p: "prepareTrack K g th r t m = (t1, m1, rm, inc)"
      by (cases "prepareTrack K g th r t m") auto
    from Cons.prems True p have
      l: "prepareTracks_loop K g th rs (h(r \<mapsto> t1)) m1 (if rm then rem @ [r] else rem) (n + inc)
         = (h', m', rem', n')" by simp
    from Cons.prems(1) True have "r \<notin> set rs" by simp
    from loop_other [OF this l] p
    have "h' r = Some (fst (prepareTrack K g th r t m)) \<and>
          (r \<in> set rem' \<longleftrightarrow> r \<in> set rem \<or> fst (snd (snd (prepareTrack K g th r t m))))"
      by auto
    then show ?thesis by blast
  next
    case False
    with Cons.prems have d: "distinct rs" and rin: "r \<in> set rs" by auto
    show ?thesis
    proof (cases "h a")
      case None
      with Cons.prems have "prepareTracks_loop K g th rs h m rem n = (h', m', rem', n')" by simp
      from Cons.IH [OF d rin Cons.prems(3) this] show ?thesis .
    next
      case (Some ta)
      obtain t1 m1 rm inc where p: "prepareTrack K g th a ta m = (t1, m1, rm, inc)"
        by (cases "prepareTrack K g th a ta m") auto
      from Cons.prems Some p have
        l: "prepareTracks_loop K g th rs (h(a \<mapsto> t1)) m1 (if rm then rem @ [a] else rem) (n + inc)
           = (h', m', rem', n')" by simp
      have hr: "(h(a \<mapsto> t1)) r = Some t" using False Cons.prems(3) by simp
      have eq: "r \<in> set (if rm then rem @ [a] else rem) \<longleftrightarrow> r \<in> set rem"
        using False by auto
      from Cons.IH [OF d rin hr l] show ?thesis unfolding eq .
    qed
  qed
qed

lemma cycle_mixed:
  assumes d: "distinct (mActiveTracks th)" and rin: "r \<in> set (mActiveTracks th)"
    and hr: "h r = Some t" and f: "framesReady (mCblk t) \<noteq> 0"
    and rd: "fst (isReady t) \<or> isStopped t" and np: "\<not> isPaused t"
  shows "map_option mRetryCount (snd (mixer_cycle K g (th, h)) r) = Some kMaxTrackRetries \<and>
         r \<in> set (mActiveTracks (fst (mixer_cycle K g (th, h))))"
proof -
  obtain h1 m1 rem1 n1 where
    l: "prepareTracks_loop K g th (mActiveTracks th) h (mAudioMixer th) [] 0 = (h1, m1, rem1, n1)"
    by (cases "prepareTracks_loop K g th (mActiveTracks th) h (mAudioMixer th) [] 0") auto
  then have c: "mixer_cycle K g (th, h) = (removeTracks rem1 h1 (th\<lparr>mAudioMixer := m1\<rparr>), h1)"
    by (simp add: mixer_cycle_def prepareTracks_l_def)
  from loop_track_any [OF d rin hr l] prepareTrack_mixed(2,3) [OF f rd np, of K g th r]
  have a: "map_option mRetryCount (h1 r) = Some kMaxTrackRetries" and b: "r \<notin> set rem1"
    by auto
  from removeTracks_active [of rem1 h1 "th\<lparr>mAudioMixer := m1\<rparr>"]
  have s: "set (mActiveTracks (removeTracks rem1 h1 (th\<lparr>mAudioMixer := m1\<rparr>)))
             = set (mActiveTracks th) - set rem1" by simp
  from a b s rin show ?thesis by (simp add: c)
qed

lemma addTrack_l_props:
  "mRetryCount (fst (snd (addTrack_l th r t))) = kMaxTrackStartupRetries"
  "mState (fst (snd (addTrack_l th r t))) \<notin> {TERMINATED, STOPPED, PAUSED}"
  "mCblk (fst (snd (addTrack_l th r t))) = mCblk t"
  "r \<in> set (mActiveTracks (snd (snd (addTrack_l th r t))))"
  "distinct (mActiveTracks th) \<Longrightarrow> distinct (mActiveTracks (snd (snd (addTrack_l th r t))))"
  by (auto simp: addTrack_l_def Let_def sv_add_def isPaused_def distinct_insort set_insort_key)

lemma start_cycles:
  assumes d: "distinct (mActiveTracks th)" and e: "framesReady (mCblk t0) = 0"
    and k: "1 \<le> k" "k \<le> 127"
  shows "(\<forall>n<k. r \<in> set (mActiveTracks (fst ((mixer_cycle K g ^^ n)
            (snd (snd (addTrack_l th r t0)),
             h(r \<mapsto> (fst (snd (addTrack_l th r t0)))\<lparr>mRetryCount := of_nat k\<rparr>)))))) \<and>
         r \<notin> set (mActiveTracks (fst ((mixer_cycle K g ^^ k)
            (snd (snd (addTrack_l th r t0)),
             h(r \<mapsto> (fst (snd (addTrack_l th r t0)))\<lparr>mRetryCount := of_nat k\<rparr>)))))"
proof -
  let ?t = "(fst (snd (addTrack_l th r t0)))\<lparr>mRetryCount := of_nat k\<rparr>"
  let ?th = "snd (snd (addTrack_l th r t0))"
  let ?h = "h(r \<mapsto> ?t)"
  have d': "distinct (mActiveTracks ?th)" using d by (rule addTrack_l_props(5))
  have rin: "r \<in> set (mActiveTracks ?th)" by (rule addTrack_l_props(4))
  have hr: "?h r = Some ?t" by simp
  have e': "framesReady (mCblk ?t) = 0" using e by (simp add: addTrack_l_props(3))
  have st: "mState ?t \<notin> {TERMINATED, STOPPED, PAUSED}"
    using addTrack_l_props(2) [of th r t0] by simp
  have kc: "mRetryCount ?t = of_nat k" by simp
  have keep: "\<forall>n<k. r \<in> set (mActiveTracks (fst ((mixer_cycle K g ^^ n) (?th, ?h))))"
    using cycles_keep [where K = K and g = g and th = ?th and h = ?h and r = r and t = ?t
        and k = k, OF d' rin hr e' st kc k(2)]
    by blast
  have evict: "r \<notin> set (mActiveTracks (fst ((mixer_cycle K g ^^ k) (?th, ?h))))"
    using cycles_evict [where K = K and g = g and th = ?th and h = ?h and r = r and t = ?t
        and k = k, OF d' rin hr e' st kc k(2) k(1)] .
  from keep evict show ?thesis by blast
qed


lemma Track_start_eq:
  "Track_start (Some T) r t0
     = (NO_ERROR, fst (snd (addTrack_l T r t0)), Some (snd (snd (addTrack_l T r t0))))"
  by (simp add: Track_start_def split: prod.splits)

lemma OutputTrack_start_eq:
  "OutputTrack_start (Some T) r ot
     = (NO_ERROR,
        ot\<lparr>trk := (fst (snd (addTrack_l T r (trk ot))))\<lparr>mRetryCount := 127\<rparr>, mActive := True\<rparr>,
        Some (snd (snd (addTrack_l T r (trk ot)))))"
  by (simp add: OutputTrack_start_def Track_start_eq)

lemma OutputTrack_start_retry:
  "mRetryCount (trk (fst (snd (OutputTrack_start tho r ot)))) = 127"
  by (cases tho) (simp_all add: OutputTrack_start_def Track_start_def split: prod.splits)

lemma retry_value: "mRetryCount t = of_nat k \<Longrightarrow> k \<le> 127 \<Longrightarrow> mRetryCount t = of_nat j \<Longrightarrow>
    j \<le> 127 \<Longrightarrow> k = j"
proof -
  assume a: "mRetryCount t = of_nat k" "k \<le> 127" "mRetryCount t = of_nat j" "j \<le> 127"
  then have "unat (of_nat k :: u8) = unat (of_nat j :: u8)" by simp
  moreover have "k < 256" "j < 256" using a(2,4) by simp_all
  then have "unat (of_nat k :: u8) = k" "unat (of_nat j :: u8) = j"
    by (simp_all add: unat_of_nat)
  ultimately show ?thesis by simp
qed

text \<open>
  C3, as stated: the startup budget is not larger than the steady-state budget; the two
  constants are equal.
\<close>

theorem C3_budgets_counterexample:
  "\<not> (sint kMaxTrackRetries < sint kMaxTrackStartupRetries) \<and>
   kMaxTrackStartupRetries = kMaxTrackRetries"
  by (simp add: kMaxTrackRetries_def kMaxTrackStartupRetries_def)

text \<open>
  C3, amended: for every active track at address \<open>r\<close> that is not TERMINATED, STOPPED or
  PAUSED and has no frames ready, each cycle of the mixer thread decrements the retry
  counter by one and takes the track off the active list when the counter has reached
  0: a track whose counter holds \<open>k\<close> (\<open>1 \<le> k \<le> 127\<close>) is still on the active list after
  every \<open>n < k\<close> consecutive such cycles, its counter then holding \<open>k - n\<close>, and is off it
  after exactly \<open>k\<close>. The counter is set to \<open>kMaxTrackRetries\<close> = 50 by every cycle that
  mixes the track (steady state; the track stays on the active list), to
  \<open>kMaxTrackStartupRetries\<close> = 50 by \<open>addTrack_l\<close>, hence by \<open>Track::start\<close>, and to 127 by
  \<open>OutputTrack::start\<close>, which overrides what \<open>addTrack_l\<close> has set. So a track started on
  a thread and never mixed is evicted after exactly 50 empty cycles, the output track of
  a duplicating thread after exactly 127. The startup budget \<open>kMaxTrackStartupRetries\<close>
  equals the steady-state budget \<open>kMaxTrackRetries\<close>.
\<close>

theorem C3_eviction:
  assumes d: "distinct (mActiveTracks th)" and rin: "r \<in> set (mActiveTracks th)"
    and hr: "h r = Some t" and e: "framesReady (mCblk t) = 0"
    and st: "mState t \<notin> {TERMINATED, STOPPED, PAUSED}"
    and k: "mRetryCount t = of_nat k" "1 \<le> k" "k \<le> 127"
  shows "(\<forall>n<k. r \<in> set (mActiveTracks (fst ((mixer_cycle K g ^^ n) (th, h)))) \<and>
            snd ((mixer_cycle K g ^^ n) (th, h)) r
              = Some (t\<lparr>mRetryCount := of_nat (k - n)\<rparr>)) \<and>
         r \<notin> set (mActiveTracks (fst ((mixer_cycle K g ^^ k) (th, h)))) \<and>
         (mRetryCount t = kMaxTrackRetries \<or> mRetryCount t = kMaxTrackStartupRetries
            \<longrightarrow> k = 50) \<and>
         (mRetryCount t = 127 \<longrightarrow> k = 127) \<and>
         sint kMaxTrackRetries = 50 \<and> sint kMaxTrackStartupRetries = 50 \<and>
         mRetryCount (fst (prepareTrack_mix g th r t' m)) = kMaxTrackRetries \<and>
         mRetryCount (fst (snd (addTrack_l T r t'))) = kMaxTrackStartupRetries \<and>
         mRetryCount (fst (snd (Track_start (Some T) r t'))) = kMaxTrackStartupRetries \<and>
         mRetryCount (trk (fst (snd (OutputTrack_start tho r ot)))) = 127 \<and>
         (h2 r = Some t2 \<and> framesReady (mCblk t2) \<noteq> 0 \<and>
          (fst (isReady t2) \<or> isStopped t2) \<and> \<not> isPaused t2 \<longrightarrow>
            map_option mRetryCount (snd (mixer_cycle K g (th, h2)) r) = Some kMaxTrackRetries \<and>
            r \<in> set (mActiveTracks (fst (mixer_cycle K g (th, h2))))) \<and>
         (distinct (mActiveTracks T) \<and> framesReady (mCblk t0) = 0 \<longrightarrow>
            (case Track_start (Some T) r t0 of
               (s, t1, Some T1) \<Rightarrow>
                 (\<forall>n<50. r \<in> set (mActiveTracks
                     (fst ((mixer_cycle K g ^^ n) (T1, h0(r \<mapsto> t1)))))) \<and>
                 r \<notin> set (mActiveTracks
                     (fst ((mixer_cycle K g ^^ 50) (T1, h0(r \<mapsto> t1)))))
             | (s, t1, None) \<Rightarrow> False)) \<and>
         (distinct (mActiveTracks T) \<and> framesReady (mCblk (trk ot0)) = 0 \<longrightarrow>
            (case OutputTrack_start (Some T) r ot0 of
               (s, ot1, Some T1) \<Rightarrow>
                 (\<forall>n<127. r \<in> set (mActiveTracks
                     (fst ((mixer_cycle K g ^^ n) (T1, h0(r \<mapsto> trk ot1)))))) \<and>
                 r \<notin> set (mActiveTracks
                     (fst ((mixer_cycle K g ^^ 127) (T1, h0(r \<mapsto> trk ot1)))))
             | (s, ot1, None) \<Rightarrow> False))"
proof -
  have keep: "\<forall>n<k. r \<in> set (mActiveTracks (fst ((mixer_cycle K g ^^ n) (th, h)))) \<and>
            snd ((mixer_cycle K g ^^ n) (th, h)) r
              = Some (t\<lparr>mRetryCount := of_nat (k - n)\<rparr>)"
    using cycles_keep [where K = K and g = g and th = th and h = h and r = r and t = t
        and k = k, OF d rin hr e st k(1) k(3)]
    by simp
  have evict: "r \<notin> set (mActiveTracks (fst ((mixer_cycle K g ^^ k) (th, h))))"
    using cycles_evict [where K = K and g = g and th = th and h = h and r = r and t = t
        and k = k, OF d rin hr e st k(1) k(3) k(2)] .
  have k50: "mRetryCount t = kMaxTrackRetries \<or> mRetryCount t = kMaxTrackStartupRetries
            \<longrightarrow> k = 50"
    using retry_value [OF k(1) k(3), of 50] by (auto simp: budgets)
  have k127: "mRetryCount t = 127 \<longrightarrow> k = 127"
    using retry_value [OF k(1) k(3), of 127] by auto
  have c: "sint kMaxTrackRetries = 50 \<and> sint kMaxTrackStartupRetries = 50"
    by (simp add: kMaxTrackRetries_def kMaxTrackStartupRetries_def)
  have m: "mRetryCount (fst (prepareTrack_mix g th r t' m)) = kMaxTrackRetries"
    by (simp add: prepareTrack_mix_def Let_def)
  have a: "mRetryCount (fst (snd (addTrack_l T r t'))) = kMaxTrackStartupRetries"
    by (rule addTrack_l_props(1))
  have s: "mRetryCount (fst (snd (Track_start (Some T) r t'))) = kMaxTrackStartupRetries"
    by (simp add: Track_start_eq addTrack_l_props(1))
  have o: "mRetryCount (trk (fst (snd (OutputTrack_start tho r ot)))) = 127"
    by (rule OutputTrack_start_retry)
  have mix: "h2 r = Some t2 \<and> framesReady (mCblk t2) \<noteq> 0 \<and>
          (fst (isReady t2) \<or> isStopped t2) \<and> \<not> isPaused t2 \<longrightarrow>
            map_option mRetryCount (snd (mixer_cycle K g (th, h2)) r) = Some kMaxTrackRetries \<and>
            r \<in> set (mActiveTracks (fst (mixer_cycle K g (th, h2))))"
    using cycle_mixed [OF d rin, of h2 t2 K g] by blast
  have s50: "distinct (mActiveTracks T) \<and> framesReady (mCblk t0) = 0 \<longrightarrow>
            (case Track_start (Some T) r t0 of
               (s, t1, Some T1) \<Rightarrow>
                 (\<forall>n<50. r \<in> set (mActiveTracks
                     (fst ((mixer_cycle K g ^^ n) (T1, h0(r \<mapsto> t1)))))) \<and>
                 r \<notin> set (mActiveTracks
                     (fst ((mixer_cycle K g ^^ 50) (T1, h0(r \<mapsto> t1)))))
             | (s, t1, None) \<Rightarrow> False)"
  proof
    assume p: "distinct (mActiveTracks T) \<and> framesReady (mCblk t0) = 0"
    have e1: "(fst (snd (addTrack_l T r t0)))
                \<lparr>mRetryCount := mRetryCount (fst (snd (addTrack_l T r t0)))\<rparr>
                = fst (snd (addTrack_l T r t0))"
      by simp
    have e2: "mRetryCount (fst (snd (addTrack_l T r t0))) = 50"
      by (simp add: addTrack_l_props(1) kMaxTrackStartupRetries_def)
    have eq: "(fst (snd (addTrack_l T r t0)))\<lparr>mRetryCount := 50\<rparr>
                = fst (snd (addTrack_l T r t0))"
      using e1 unfolding e2 .
    from start_cycles [where th = T and ?t0.0 = t0 and k = 50 and r = r and K = K and g = g
        and h = h0] p
    show "case Track_start (Some T) r t0 of
               (s, t1, Some T1) \<Rightarrow>
                 (\<forall>n<50. r \<in> set (mActiveTracks
                     (fst ((mixer_cycle K g ^^ n) (T1, h0(r \<mapsto> t1)))))) \<and>
                 r \<notin> set (mActiveTracks
                     (fst ((mixer_cycle K g ^^ 50) (T1, h0(r \<mapsto> t1)))))
             | (s, t1, None) \<Rightarrow> False"
      by (simp add: Track_start_eq eq)
  qed
  have s127: "distinct (mActiveTracks T) \<and> framesReady (mCblk (trk ot0)) = 0 \<longrightarrow>
            (case OutputTrack_start (Some T) r ot0 of
               (s, ot1, Some T1) \<Rightarrow>
                 (\<forall>n<127. r \<in> set (mActiveTracks
                     (fst ((mixer_cycle K g ^^ n) (T1, h0(r \<mapsto> trk ot1)))))) \<and>
                 r \<notin> set (mActiveTracks
                     (fst ((mixer_cycle K g ^^ 127) (T1, h0(r \<mapsto> trk ot1)))))
             | (s, ot1, None) \<Rightarrow> False)"
  proof
    assume p: "distinct (mActiveTracks T) \<and> framesReady (mCblk (trk ot0)) = 0"
    from start_cycles [where th = T and ?t0.0 = "trk ot0" and k = 127 and r = r and K = K
        and g = g and h = h0] p
    show "case OutputTrack_start (Some T) r ot0 of
               (s, ot1, Some T1) \<Rightarrow>
                 (\<forall>n<127. r \<in> set (mActiveTracks
                     (fst ((mixer_cycle K g ^^ n) (T1, h0(r \<mapsto> trk ot1)))))) \<and>
                 r \<notin> set (mActiveTracks
                     (fst ((mixer_cycle K g ^^ 127) (T1, h0(r \<mapsto> trk ot1)))))
             | (s, ot1, None) \<Rightarrow> False"
      by (simp add: OutputTrack_start_eq)
  qed
  from keep evict k50 k127 c m a s o mix s50 s127 show ?thesis by blast
qed


theorem C3_eviction_witness:
  "distinct (mActiveTracks started_thread) \<and> 7 \<in> set (mActiveTracks started_thread) \<and>
   framesReady (mCblk started_track) = 0 \<and>
   mState started_track \<notin> {TERMINATED, STOPPED, PAUSED} \<and>
   mRetryCount started_track = kMaxTrackStartupRetries \<and>
   7 \<in> set (mActiveTracks (fst ((mixer_cycle sample_decls sample_gain ^^ 49)
       (started_thread, [7 \<mapsto> started_track])))) \<and>
   7 \<notin> set (mActiveTracks (fst ((mixer_cycle sample_decls sample_gain ^^ 50)
       (started_thread, [7 \<mapsto> started_track])))) \<and>
   framesReady (mCblk (trk started_output_track)) = 0 \<and>
   mState (trk started_output_track) \<notin> {TERMINATED, STOPPED, PAUSED} \<and>
   mRetryCount (trk started_output_track) = 127 \<and>
   7 \<in> set (mActiveTracks (fst ((mixer_cycle sample_decls sample_gain ^^ 126)
       (started_thread, [7 \<mapsto> trk started_output_track])))) \<and>
   7 \<notin> set (mActiveTracks (fst ((mixer_cycle sample_decls sample_gain ^^ 127)
       (started_thread, [7 \<mapsto> trk started_output_track])))) \<and>
   framesReady (mCblk filled_track) \<noteq> 0 \<and> fst (isReady filled_track) \<and>
   \<not> isPaused filled_track \<and>
   map_option mRetryCount (snd (mixer_cycle sample_decls sample_gain
       (started_thread, [7 \<mapsto> filled_track])) 7) = Some kMaxTrackRetries"
proof -
  have a: "distinct (mActiveTracks started_thread)" "7 \<in> set (mActiveTracks started_thread)"
    by (simp_all add: started_thread_def addTrack_l_def sample_thread_def sv_add_def Let_def)
  have b: "[7 \<mapsto> x] 7 = Some x" for x :: track by simp
  have c: "framesReady (mCblk started_track) = 0"
    "mState started_track \<notin> {TERMINATED, STOPPED, PAUSED}"
    "mRetryCount started_track = kMaxTrackStartupRetries"
    by (simp_all add: started_track_def addTrack_l_def sample_idle_def sample_playing_def
        sample_track_def sample_cblk_def sample_thread_def isPaused_def framesReady_def Let_def)
  have c50: "mRetryCount started_track = of_nat 50"
    using c(3) by (simp add: kMaxTrackStartupRetries_def)
  have o: "framesReady (mCblk (trk started_output_track)) = 0"
    "mState (trk started_output_track) \<notin> {TERMINATED, STOPPED, PAUSED}"
    "mRetryCount (trk started_output_track) = 127"
    by (simp_all add: started_output_track_def OutputTrack_start_def Track_start_def
        sample_output_track_def addTrack_l_def sample_idle_def sample_playing_def
        sample_track_def sample_cblk_def sample_thread_def isPaused_def framesReady_def Let_def)
  have o127: "mRetryCount (trk started_output_track) = of_nat 127"
    using o(3) by simp
  have f: "framesReady (mCblk filled_track) \<noteq> 0" "fst (isReady filled_track)"
    "\<not> isPaused filled_track"
    by (simp_all add: filled_track_def addTrack_l_def sample_idle_def sample_playing_def
        sample_track_def sample_cblk_def sample_thread_def isPaused_def framesReady_def
        isReady_def Let_def)
  from C3_eviction [where K = sample_decls and g = sample_gain and th = started_thread
      and h = "[7 \<mapsto> started_track]" and r = 7 and t = started_track and k = 50
      and ?h2.0 = "[7 \<mapsto> filled_track]" and ?t2.0 = filled_track,
      OF a b c(1,2) c50] f
  have w1: "7 \<in> set (mActiveTracks (fst ((mixer_cycle sample_decls sample_gain ^^ 49)
           (started_thread, [7 \<mapsto> started_track])))) \<and>
        7 \<notin> set (mActiveTracks (fst ((mixer_cycle sample_decls sample_gain ^^ 50)
           (started_thread, [7 \<mapsto> started_track])))) \<and>
        map_option mRetryCount (snd (mixer_cycle sample_decls sample_gain
           (started_thread, [7 \<mapsto> filled_track])) 7) = Some kMaxTrackRetries"
    by simp
  from C3_eviction [where K = sample_decls and g = sample_gain and th = started_thread
      and h = "[7 \<mapsto> trk started_output_track]" and r = 7 and t = "trk started_output_track"
      and k = 127, OF a b o(1,2) o127]
  have w2: "7 \<in> set (mActiveTracks (fst ((mixer_cycle sample_decls sample_gain ^^ 126)
           (started_thread, [7 \<mapsto> trk started_output_track])))) \<and>
        7 \<notin> set (mActiveTracks (fst ((mixer_cycle sample_decls sample_gain ^^ 127)
           (started_thread, [7 \<mapsto> trk started_output_track]))))"
    by simp
  from a c o f w1 w2 show ?thesis by simp
qed

subsection \<open>The overflow queue of an OutputTrack\<close>

lemma write_body_queue:
  "write_body su ba obs w inB ot = Break (full, w', inB', ot') \<or>
   write_body su ba obs w inB ot = Continue (full, w', inB', ot') \<Longrightarrow>
     length (mBufferQueue ot') \<le> length (mBufferQueue ot)"
  by (auto simp: write_body_def Let_def split: list.splits if_splits)

lemma write_loop_queue:
  "write_loop su ba observations w inB ot = Some (full, inB', ot') \<Longrightarrow>
     length (mBufferQueue ot') \<le> length (mBufferQueue ot)"
proof (induction observations arbitrary: w inB ot)
  case Nil
  then show ?case by (simp split: if_splits)
next
  case (Cons obs rest)
  show ?case
  proof (cases "w = 0")
    case True
    with Cons.prems show ?thesis by simp
  next
    case False
    show ?thesis
    proof (cases "write_body su ba obs w inB ot")
      case (Break x)
      obtain f1 w1 i1 o1 where x: "x = (f1, w1, i1, o1)" by (cases x) auto
      from Cons.prems False Break x have "ot' = o1" by simp
      with write_body_queue [of su ba obs w inB ot f1 w1 i1 o1] Break x show ?thesis by simp
    next
      case (Continue x)
      obtain f1 w1 i1 o1 where x: "x = (f1, w1, i1, o1)" by (cases x) auto
      from Cons.prems False Continue x
      have "write_loop su ba rest w1 i1 o1 = Some (full, inB', ot')" by simp
      from Cons.IH [OF this] write_body_queue [of su ba obs w inB ot f1 w1 i1 o1] Continue x
      show ?thesis by simp
    qed
  qed
qed

lemma OutputTrack_start_queue:
  "mBufferQueue (fst (snd (OutputTrack_start th r ot))) = mBufferQueue ot"
  by (simp add: OutputTrack_start_def split: prod.splits)

lemma OutputTrack_stop_queue: "mBufferQueue (OutputTrack_stop K th r ot) = []"
  by (simp add: OutputTrack_stop_def clearBufferQueue_def Let_def)

text \<open>
  C6: the overflow queue of an \<open>OutputTrack\<close> never grows beyond
  \<open>kMaxOverFlowBuffers\<close> entries: it is empty after construction (which gives a track
  exactly when the allocation of the control block succeeds), and if it holds at most
  that many buffers, it still does after every \<open>write()\<close> that returns and after every
  \<open>stop()\<close>. The priming and the
  remainder paths append only below the bound, the zero-length flush only to an empty
  queue (\<open>kMaxOverFlowBuffers\<close>, declared outside the source tree, is at least 1), and the
  loop only removes buffers.
\<close>

theorem C6_overflow_queue:
  assumes k: "0 < kMaxOverFlowBuffers K"
    and inv: "length (mBufferQueue ot) \<le> kMaxOverFlowBuffers K"
  shows "(OutputTrack_write K su ba observations new th r ot data frames = Some (full, ot', th')
            \<longrightarrow> length (mBufferQueue ot') \<le> kMaxOverFlowBuffers K) \<and>
         length (mBufferQueue (OutputTrack_stop K th r ot)) \<le> kMaxOverFlowBuffers K \<and>
         (case OutputTrack_init K cblk0 mem name tfc tsr sr fmt cc fc u out0 of
            None \<Rightarrow> mem = 0
          | Some ot0 \<Rightarrow> mem \<noteq> 0 \<and> length (mBufferQueue ot0) \<le> kMaxOverFlowBuffers K)"
proof (intro conjI impI)
  assume w: "OutputTrack_write K su ba observations new th r ot data frames = Some (full, ot', th')"
  define started where "started = (if \<not> mActive ot then snd (OutputTrack_start th r ot) else (ot, th))"
  define ot0 where "ot0 = fst started"
  define th1 where "th1 = snd started"
  define ot1 where "ot1 =
     (if \<not> mActive ot \<and> th1 \<noteq> None \<and> frameCount (mCblk (trk ot0)) > frames
                 then (if length (mBufferQueue ot0) < kMaxOverFlowBuffers K
                       then ot0\<lparr>mBufferQueue := mBufferQueue ot0 @
                              [\<lparr>raw = new,
                                b_frameCount = frameCount (mCblk (trk ot0)) - frames\<rparr>]\<rparr>
                       else ot0)
                 else ot0)"
  have q0: "mBufferQueue ot0 = mBufferQueue ot"
    by (simp add: ot0_def started_def OutputTrack_start_queue)
  have q1: "length (mBufferQueue ot1) \<le> kMaxOverFlowBuffers K"
    using inv q0 by (simp add: ot1_def)
  obtain f2 i2 ot2 where l:
    "write_loop su ba observations (mWaitTimeMs ot) \<lparr>raw = data, b_frameCount = frames\<rparr> ot1
       = Some (f2, i2, ot2)"
    using w unfolding OutputTrack_write_def Let_def
      started_def [symmetric] ot0_def [symmetric] th1_def [symmetric] ot1_def [symmetric]
    by (cases "write_loop su ba observations (mWaitTimeMs ot)
                 \<lparr>raw = data, b_frameCount = frames\<rparr> ot1") auto
  from write_loop_queue [OF l] q1
  have q2: "length (mBufferQueue ot2) \<le> kMaxOverFlowBuffers K" by simp
  define ot3 where "ot3 = (if b_frameCount i2 \<noteq> 0
                         then (if length (mBufferQueue ot2) < kMaxOverFlowBuffers K
                               then ot2\<lparr>mBufferQueue := mBufferQueue ot2 @
                                      [\<lparr>raw = new,
                                        b_frameCount = b_frameCount i2\<rparr>]\<rparr>
                               else ot2)
                         else ot2)"
  have q3: "length (mBufferQueue ot3) \<le> kMaxOverFlowBuffers K"
    using q2 by (simp add: ot3_def)
  from w l have "ot' = ot3 \<or> ot' = OutputTrack_stop K th1 r ot3 \<or>
      (mBufferQueue ot3 = [] \<and>
       ot' = ot3\<lparr>mBufferQueue := mBufferQueue ot3 @
                   [\<lparr>raw = new,
                     b_frameCount = frameCount (mCblk (trk ot3)) - user (mCblk (trk ot3))\<rparr>]\<rparr>)"
    unfolding OutputTrack_write_def Let_def
      started_def [symmetric] ot0_def [symmetric] th1_def [symmetric] ot1_def [symmetric]
    by (auto simp: ot3_def split: if_splits)
  with q3 k show "length (mBufferQueue ot') \<le> kMaxOverFlowBuffers K"
    by (auto simp: OutputTrack_stop_queue)
next
  show "length (mBufferQueue (OutputTrack_stop K th r ot)) \<le> kMaxOverFlowBuffers K"
    by (simp add: OutputTrack_stop_queue)
next
  show "case OutputTrack_init K cblk0 mem name tfc tsr sr fmt cc fc u out0 of
            None \<Rightarrow> mem = 0
          | Some ot0 \<Rightarrow> mem \<noteq> 0 \<and> length (mBufferQueue ot0) \<le> kMaxOverFlowBuffers K"
    by (auto simp: OutputTrack_init_def Track_init_def Let_def split: option.splits if_splits)
qed

theorem C6_overflow_queue_witness:
  "0 < kMaxOverFlowBuffers sample_decls \<and>
   length (mBufferQueue sample_output_track) \<le> kMaxOverFlowBuffers sample_decls \<and>
   OutputTrack_write sample_decls sample_stepUser sample_buffer [(None, 0)] 0x3000
       (Some sample_thread) 7 sample_output_track 0x4000 1024 \<noteq> None \<and>
   map b_frameCount (mBufferQueue (fst (snd (the
     (OutputTrack_write sample_decls sample_stepUser sample_buffer [(None, 0)] 0x3000
        (Some sample_thread) 7 sample_output_track 0x4000 1024))))) = [2048, 1024] \<and>
   length (mBufferQueue (fst (snd (the
     (OutputTrack_write sample_decls sample_stepUser sample_buffer [(None, 0)] 0x3000
        (Some sample_thread) 7 sample_output_track 0x4000 1024)))))
     \<le> kMaxOverFlowBuffers sample_decls"
proof -
  have a: "0 < kMaxOverFlowBuffers sample_decls"
    "length (mBufferQueue sample_output_track) \<le> kMaxOverFlowBuffers sample_decls"
    by (simp_all add: sample_decls_def sample_output_track_def)
  have e: "OutputTrack_write sample_decls sample_stepUser sample_buffer [(None, 0)] 0x3000
       (Some sample_thread) 7 sample_output_track 0x4000 1024 \<noteq> None \<and>
     map b_frameCount (mBufferQueue (fst (snd (the
       (OutputTrack_write sample_decls sample_stepUser sample_buffer [(None, 0)] 0x3000
          (Some sample_thread) 7 sample_output_track 0x4000 1024))))) = [2048, 1024]"
    by (simp add: OutputTrack_write_def OutputTrack_start_def Track_start_def addTrack_l_def
        write_body_def obtainBuffer_def sample_output_track_def sample_idle_def
        sample_playing_def sample_track_def sample_cblk_def sample_thread_def sample_decls_def
        isPaused_def Let_def)
  then obtain full ot' th' where w:
    "OutputTrack_write sample_decls sample_stepUser sample_buffer [(None, 0)] 0x3000
       (Some sample_thread) 7 sample_output_track 0x4000 1024 = Some (full, ot', th')"
    by (cases "OutputTrack_write sample_decls sample_stepUser sample_buffer [(None, 0)] 0x3000
       (Some sample_thread) 7 sample_output_track 0x4000 1024") auto
  from C6_overflow_queue [OF a, where su = sample_stepUser and ba = sample_buffer
      and observations = "[(None, 0)]" and new = "0x3000" and th = "Some sample_thread"
      and r = 7 and data = "0x4000" and frames = 1024 and full = full and ot' = ot'
      and th' = th'] w
  have "length (mBufferQueue ot') \<le> kMaxOverFlowBuffers sample_decls" by simp
  with a e w show ?thesis by simp
qed

subsection \<open>Endpoint handles\<close>

lemma server_one_output_eval:
  "mNextThreadId server_one_output = 1"
  "map fst (mPlaybackThreads server_one_output) = [1]"
  "mRecordThreads server_one_output = []"
  by (simp_all add: server_one_output_def openOutput_def hw_open_ok_def sample_server_def
      sample_decls_def deref0_def Let_def)

text \<open>
  C8, evaluated where the code departs from it: on a server whose only endpoint has
  handle 1, an \<open>openOutput\<close> (and likewise an \<open>openInput\<close>) whose hardware stream fails
  to open creates no endpoint, leaves the server as it is, and returns 1, the handle of
  the endpoint created before.
\<close>

theorem C8_failed_open_returns_previous_handle:
  "fst (openOutput sample_decls hw_open_ok sample_new_thread sample_server
         (Some 2) None None None None 0) = 1 \<and>
   map fst (mPlaybackThreads server_one_output) = [1] \<and>
   fst (openOutput sample_decls hw_open_fail sample_new_thread server_one_output
         (Some 2) None None None None 0) = 1 \<and>
   fst (snd (openOutput sample_decls hw_open_fail sample_new_thread server_one_output
         (Some 2) None None None None 0)) = server_one_output \<and>
   fst (openInput sample_decls (\<lambda>acoustics. hw_open_fail) server_one_output
         (Some 4) None None None 0) = 1 \<and>
   fst (snd (openInput sample_decls (\<lambda>acoustics. hw_open_fail) server_one_output
         (Some 4) None None None 0)) = server_one_output"
proof -
  have a: "fst (openOutput sample_decls hw_open_ok sample_new_thread sample_server
         (Some 2) None None None None 0) = 1"
    by (simp add: openOutput_def hw_open_ok_def sample_server_def sample_decls_def deref0_def
        Let_def)
  have b: "openOutput sample_decls hw_open_fail sample_new_thread server_one_output
         (Some 2) None None None None 0
       = (mNextThreadId server_one_output, server_one_output, None, None, None, None)"
    by (simp add: openOutput_def hw_open_fail_def deref0_def Let_def)
  have c: "openInput sample_decls (\<lambda>acoustics. hw_open_fail) server_one_output
         (Some 4) None None None 0
       = (mNextThreadId server_one_output, server_one_output, None, None, None)"
    by (simp add: openInput_def hw_open_fail_def deref0_def Let_def)
  from a b c server_one_output_eval show ?thesis by simp
qed

theorem C8_failed_open_witness:
  "fst (openOutput sample_decls hw_open_fail sample_new_thread server_one_output
         (Some 2) None None None None 0)
     = fst (openOutput sample_decls hw_open_ok sample_new_thread sample_server
         (Some 2) None None None None 0) \<and>
   map_of (mPlaybackThreads (fst (snd (openOutput sample_decls hw_open_fail sample_new_thread
       server_one_output (Some 2) None None None None 0)))) 1
     = map_of (mPlaybackThreads server_one_output) 1"
  using C8_failed_open_returns_previous_handle
  by simp

text \<open>When \<open>openOutput\<close> does create an endpoint, its handle is the next integer.\<close>

lemma openOutput_created:
  assumes "pDevices = Some d" "d \<noteq> 0" "sr_stream (hw d (deref0 pF) (deref0 pC) (deref0 pS)) \<noteq> 0"
  shows "fst (openOutput K hw nt af pDevices pS pF pC pL fl) = mNextThreadId af + 1 \<and>
         mNextThreadId (fst (snd (openOutput K hw nt af pDevices pS pF pC pL fl)))
           = mNextThreadId af + 1"
  using assms by (simp add: openOutput_def Let_def)

subsection \<open>Master volume and stream mute\<close>

text \<open>
  C9: if the hardware accepts \<open>setMasterVolume\<close> (the call reaches it and it answers
  \<open>NO_ERROR\<close>), the server stores \<open>1.0\<close> as its master volume and in every playback
  thread, and \<open>masterVolume()\<close> then returns \<open>1.0\<close>; when the hardware rejects the call,
  the requested value is stored, propagated and returned. Propagation reaches every
  thread that was registered before the call: the registry afterwards holds the same
  threads under the same handles, in the same order, each changed in its master volume
  only. The hardware is not called only when the permission check fails, and then
  nothing changes.
\<close>

theorem C9_setMasterVolume:
  "(hw_masterVolumeCalls (mAudioHardware (snd (setMasterVolume allowed v af)))
      = hw_masterVolumeCalls (mAudioHardware af) @ [v] \<and>
    hw_setMasterVolume (mAudioHardware af) v = NO_ERROR \<longrightarrow>
      af_mMasterVolume (snd (setMasterVolume allowed v af)) = float_one \<and>
      list_all (\<lambda>(k, th). mMasterVolume th = float_one)
        (mPlaybackThreads (snd (setMasterVolume allowed v af))) \<and>
      mPlaybackThreads (snd (setMasterVolume allowed v af))
        = map (\<lambda>(k, th). (k, th\<lparr>mMasterVolume := float_one\<rparr>)) (mPlaybackThreads af) \<and>
      masterVolume (snd (setMasterVolume allowed v af)) = float_one \<and>
      fst (setMasterVolume allowed v af) = NO_ERROR) \<and>
   (hw_masterVolumeCalls (mAudioHardware (snd (setMasterVolume allowed v af)))
      = hw_masterVolumeCalls (mAudioHardware af) @ [v] \<and>
    hw_setMasterVolume (mAudioHardware af) v \<noteq> NO_ERROR \<longrightarrow>
      af_mMasterVolume (snd (setMasterVolume allowed v af)) = v \<and>
      list_all (\<lambda>(k, th). mMasterVolume th = v)
        (mPlaybackThreads (snd (setMasterVolume allowed v af))) \<and>
      mPlaybackThreads (snd (setMasterVolume allowed v af))
        = map (\<lambda>(k, th). (k, th\<lparr>mMasterVolume := v\<rparr>)) (mPlaybackThreads af) \<and>
      masterVolume (snd (setMasterVolume allowed v af)) = v \<and>
      fst (setMasterVolume allowed v af) = NO_ERROR) \<and>
   (hw_masterVolumeCalls (mAudioHardware (snd (setMasterVolume allowed v af)))
      = hw_masterVolumeCalls (mAudioHardware af) \<longrightarrow>
      setMasterVolume allowed v af = (PERMISSION_DENIED, af))"
  by (cases allowed)
     (auto simp: setMasterVolume_def hw_call_setMasterVolume_def masterVolume_def
       PlaybackThread_setMasterVolume_def Let_def list_all_iff)

theorem C9_setMasterVolume_witness:
  "hw_masterVolumeCalls (mAudioHardware (snd (setMasterVolume True 0x3F000000
       server_one_output)))
     = hw_masterVolumeCalls (mAudioHardware server_one_output) @ [0x3F000000] \<and>
   hw_setMasterVolume (mAudioHardware server_one_output) 0x3F000000 = NO_ERROR \<and>
   masterVolume (snd (setMasterVolume True 0x3F000000 server_one_output)) = float_one \<and>
   list_all (\<lambda>(k, th). mMasterVolume th = float_one)
     (mPlaybackThreads (snd (setMasterVolume True 0x3F000000 server_one_output))) \<and>
   map fst (mPlaybackThreads (snd (setMasterVolume True 0x3F000000 server_one_output)))
     = [1] \<and>
   hw_setMasterVolume (mAudioHardware (server_one_output\<lparr>mAudioHardware :=
       sample_hw\<lparr>hw_setMasterVolume := (\<lambda>v. NO_INIT)\<rparr>\<rparr>)) 0x3F000000 \<noteq> NO_ERROR \<and>
   masterVolume (snd (setMasterVolume True 0x3F000000
       (server_one_output\<lparr>mAudioHardware :=
          sample_hw\<lparr>hw_setMasterVolume := (\<lambda>v. NO_INIT)\<rparr>\<rparr>))) = 0x3F000000 \<and>
   map fst (mPlaybackThreads (snd (setMasterVolume True 0x3F000000
       (server_one_output\<lparr>mAudioHardware :=
          sample_hw\<lparr>hw_setMasterVolume := (\<lambda>v. NO_INIT)\<rparr>\<rparr>)))) = [1]"
proof -
  have a: "hw_masterVolumeCalls (mAudioHardware (snd (setMasterVolume True 0x3F000000 af)))
     = hw_masterVolumeCalls (mAudioHardware af) @ [0x3F000000]" for af
    by (simp add: setMasterVolume_def hw_call_setMasterVolume_def Let_def)
  have b: "hw_setMasterVolume (mAudioHardware server_one_output) 0x3F000000 = NO_ERROR"
    by (simp add: server_one_output_def openOutput_def hw_open_ok_def sample_server_def
        sample_hw_def sample_decls_def deref0_def Let_def)
  have c: "hw_setMasterVolume (mAudioHardware (server_one_output\<lparr>mAudioHardware :=
       sample_hw\<lparr>hw_setMasterVolume := (\<lambda>v. NO_INIT)\<rparr>\<rparr>)) 0x3F000000 \<noteq> NO_ERROR"
    by simp
  have d: "map fst (map (\<lambda>(k, th). (k, th\<lparr>mMasterVolume := w\<rparr>))
                      (mPlaybackThreads server_one_output)) = [1]" for w
    using server_one_output_eval(2) by (simp add: case_prod_beta comp_def)
  from a b c d
    C9_setMasterVolume [where allowed = True and v = "0x3F000000" and af = server_one_output]
    C9_setMasterVolume [where allowed = True and v = "0x3F000000"
      and af = "server_one_output\<lparr>mAudioHardware :=
                  sample_hw\<lparr>hw_setMasterVolume := (\<lambda>v. NO_INIT)\<rparr>\<rparr>"]
  show ?thesis by (auto simp: list_all_iff)
qed

text \<open>
  C10, amended: whenever the stream index is negative, at least \<open>NUM_STREAM_TYPES\<close>, or
  equal to \<open>ENFORCED_AUDIBLE\<close>, \<open>setStreamMute\<close> leaves the server (every stream's mute
  flag, server-side and in every playback thread) unchanged and returns \<open>BAD_VALUE\<close> if
  the caller passes the permission check, \<open>PERMISSION_DENIED\<close> if it does not. For every
  call, whatever the arguments, the mute flag of \<open>ENFORCED_AUDIBLE\<close> is afterwards what it
  was before, in the server and in every playback thread.
\<close>

theorem C10_setStreamMute:
  "(sint stream < 0 \<or> NUM_STREAM_TYPES K \<le> stream \<or> stream = ENFORCED_AUDIBLE K \<longrightarrow>
      snd (setStreamMute K allowed stream muted af) = af \<and>
      fst (setStreamMute K allowed stream muted af)
        = (if allowed then BAD_VALUE else PERMISSION_DENIED)) \<and>
   mute (af_mStreamTypes (snd (setStreamMute K allowed stream muted af))
           (sint (ENFORCED_AUDIBLE K)))
     = mute (af_mStreamTypes af (sint (ENFORCED_AUDIBLE K))) \<and>
   map (\<lambda>(k, th). mute (mStreamTypes th (sint (ENFORCED_AUDIBLE K))))
       (mPlaybackThreads (snd (setStreamMute K allowed stream muted af)))
     = map (\<lambda>(k, th). mute (mStreamTypes th (sint (ENFORCED_AUDIBLE K))))
       (mPlaybackThreads af)"
proof -
  have inj: "sint (ENFORCED_AUDIBLE K) = sint stream \<longleftrightarrow> ENFORCED_AUDIBLE K = stream"
    by (auto intro: signed_word_eqI)
  show ?thesis
    by (auto simp: setStreamMute_def word_sless_alt PlaybackThread_setStreamMute_def inj)
qed

theorem C10_setStreamMute_witness:
  "(7 :: u32) = ENFORCED_AUDIBLE sample_decls \<and>
   setStreamMute sample_decls True 7 True server_one_output
     = (BAD_VALUE, server_one_output) \<and>
   NUM_STREAM_TYPES sample_decls \<le> (12 :: u32) \<and>
   setStreamMute sample_decls True 12 True server_one_output
     = (BAD_VALUE, server_one_output)"
  using
    C10_setStreamMute [where K = sample_decls and stream = 7 and allowed = True
      and muted = True and af = server_one_output]
    C10_setStreamMute [where K = sample_decls and stream = 12 and allowed = True
      and muted = True and af = server_one_output]
  by (simp add: sample_decls_def prod_eq_iff)

text \<open>
  C10, as stated, at a caller that fails the permission check: an invalid stream index
  gets \<open>PERMISSION_DENIED\<close>, not \<open>BAD_VALUE\<close>.
\<close>

theorem C10_permission_counterexample:
  "sint (- 1 :: u32) < 0 \<and>
   fst (setStreamMute sample_decls False (- 1) True sample_server) = PERMISSION_DENIED \<and>
   fst (setStreamMute sample_decls False (- 1) True sample_server) \<noteq> BAD_VALUE"
  by (simp add: setStreamMute_def)

end
